theory Spec2Isabelle
  imports Complex_Main "HOL-Library.Word" "HOL-Library.Log_Nat" "HOL-Library.Monad_Syntax"
begin

section \<open>Contact results encoding of the hydroelastic collisions example\<close>

text \<open>
  This theory embeds \<^verbatim>\<open>ContactResultMaker::CalcContactResults\<close> of
  \<^verbatim>\<open>drake_ros_viz/examples/hydroelastic_collisions/hydroelastic_collisions.cpp\<close>.

  Conventions of the embedding:
  \<^item> a C++ \<^verbatim>\<open>double\<close> is a binary64 value: every addition, multiplication and
    division rounds its exact result to the nearest binary64 value (ties to even), and
    overflows to an infinity;
  \<^item> an \<^verbatim>\<open>int\<close> (and an \<^verbatim>\<open>int32_t\<close> field) is an \<^typ>\<open>int\<close> that holds a value of
    the 32-bit signed range; the narrowing of a container size goes through
    \<^typ>\<open>32 word\<close>;
  \<^item> an exception, an abort or an undefined conversion is the result \<^term>\<open>None\<close>;
  \<^item> the output message is updated in place, as the code does through the pointer
    \<^verbatim>\<open>results\<close>: the function takes the message object it is given and returns
    the updated one.
\<close>

subsection \<open>Binary64 numbers\<close>

text \<open>A \<^verbatim>\<open>double\<close> is an IEEE 754 binary64 value: a finite value, given by the real
  number it denotes, an infinity or a NaN. The two zeros are not told apart (they compare
  equal, and the code never divides by a variable), and neither are the NaNs.\<close>

datatype double = Finite real | PosInf | NegInf | NaN

text \<open>The exponent \<open>e\<close> with \<open>2 ^ e \<le> x < 2 ^ (e + 1)\<close> of a positive \<open>x\<close>, computed
  from the bit length of an integer.\<close>

definition floor_log2 :: "real \<Rightarrow> int" where
  "floor_log2 x = (if 1 \<le> x then bitlen \<lfloor>x\<rfloor> - 1 else - bitlen (\<lceil>1 / x\<rceil> - 1))"

text \<open>Rounding to the nearest integer, a tie to the even one.\<close>

definition round_half_even :: "real \<Rightarrow> int" where
  "round_half_even x =
     (let f = \<lfloor>x\<rfloor>; d = x - of_int f
      in if d < 1 / 2 then f else if 1 / 2 < d then f + 1 else if even f then f else f + 1)"

text \<open>Rounding of a real number to binary64, in the default mode (to nearest, ties to
  even): 53 significant bits, the unit in the last place never below \<open>2 ^ -1074\<close>
  (subnormal numbers), and an infinity when the rounded value reaches \<open>2 ^ 1024\<close>.\<close>

definition round_binary64 :: "real \<Rightarrow> double" where
  "round_binary64 x =
     (if x = 0 then Finite 0
      else let u = max (floor_log2 \<bar>x\<bar> - 52) (- 1074);
               y = of_int (round_half_even (x / 2 powi u)) * 2 powi u
           in if 2 ^ 1024 \<le> y then PosInf
              else if y \<le> - (2 ^ 1024) then NegInf
              else Finite y)"

text \<open>The real numbers that are binary64 values.\<close>

definition is_binary64 :: "real \<Rightarrow> bool" where
  "is_binary64 x \<longleftrightarrow>
     (\<exists>m e. x = of_int m * 2 powi e \<and> \<bar>m\<bar> < 2 ^ 53 \<and> - 1074 \<le> e) \<and> \<bar>x\<bar> < 2 ^ 1024"

text \<open>A literal of the source (\<^verbatim>\<open>0.2\<close>, \<^verbatim>\<open>3.0\<close>, \<^verbatim>\<open>1e6\<close>, or an integer converted to
  \<^verbatim>\<open>double\<close>) denotes the binary64 value nearest to the number written.\<close>

definition dbl :: "real \<Rightarrow> double" where
  "dbl x = round_binary64 x"

text \<open>Addition, multiplication and division: the exact result, rounded once.\<close>

fun fadd :: "double \<Rightarrow> double \<Rightarrow> double" where
  "fadd (Finite x) (Finite y) = round_binary64 (x + y)"
| "fadd NaN _ = NaN"
| "fadd _ NaN = NaN"
| "fadd PosInf NegInf = NaN"
| "fadd NegInf PosInf = NaN"
| "fadd PosInf _ = PosInf"
| "fadd _ PosInf = PosInf"
| "fadd NegInf _ = NegInf"
| "fadd _ NegInf = NegInf"

text \<open>The unary minus changes the sign and never rounds.\<close>

fun fneg :: "double \<Rightarrow> double" where
  "fneg (Finite x) = Finite (- x)"
| "fneg PosInf = NegInf"
| "fneg NegInf = PosInf"
| "fneg NaN = NaN"

fun fmul :: "double \<Rightarrow> double \<Rightarrow> double" where
  "fmul (Finite x) (Finite y) = round_binary64 (x * y)"
| "fmul NaN _ = NaN"
| "fmul _ NaN = NaN"
| "fmul (Finite x) d = (if x = 0 then NaN else if 0 < x then d else fneg d)"
| "fmul d (Finite y) = (if y = 0 then NaN else if 0 < y then d else fneg d)"
| "fmul PosInf d = d"
| "fmul NegInf d = fneg d"

text \<open>The code divides by the literals \<^verbatim>\<open>3.0\<close> and \<^verbatim>\<open>2.0\<close> only; a zero divisor is
  taken as the positive zero.\<close>

fun fdiv :: "double \<Rightarrow> double \<Rightarrow> double" where
  "fdiv (Finite x) (Finite y) =
     (if y = 0 then (if x = 0 then NaN else if 0 < x then PosInf else NegInf)
      else round_binary64 (x / y))"
| "fdiv NaN _ = NaN"
| "fdiv _ NaN = NaN"
| "fdiv (Finite x) _ = Finite 0"
| "fdiv PosInf (Finite y) = (if 0 \<le> y then PosInf else NegInf)"
| "fdiv NegInf (Finite y) = (if 0 \<le> y then NegInf else PosInf)"
| "fdiv _ _ = NaN"

text \<open>The implicit conversion of a \<^verbatim>\<open>double\<close> to \<^verbatim>\<open>int64_t\<close> discards the
  fractional part (truncation toward zero). The behaviour is undefined when the
  truncated value is not representable, and for an infinity or a NaN: the model has no
  result there.\<close>

fun double_to_int64 :: "double \<Rightarrow> int option" where
  "double_to_int64 (Finite x) =
     (let k = (if 0 \<le> x then \<lfloor>x\<rfloor> else \<lceil>x\<rceil>)
      in if - (2 ^ 63) \<le> k \<and> k < 2 ^ 63 then Some k else None)"
| "double_to_int64 _ = None"

subsection \<open>Vectors\<close>

text \<open>A \<^verbatim>\<open>Vector3d\<close> has three \<^verbatim>\<open>double\<close> components; the sum of two vectors and the
  quotient of a vector by a scalar are computed component by component.\<close>

type_synonym Vector3d = "double \<times> double \<times> double"

definition vec_add :: "Vector3d \<Rightarrow> Vector3d \<Rightarrow> Vector3d" where
  "vec_add u v =
     (case u of (ux, uy, uz) \<Rightarrow>
        case v of (vx, vy, vz) \<Rightarrow> (fadd ux vx, fadd uy vy, fadd uz vz))"

definition vec_div :: "Vector3d \<Rightarrow> double \<Rightarrow> Vector3d" where
  "vec_div u c = (case u of (ux, uy, uz) \<Rightarrow> (fdiv ux c, fdiv uy c, fdiv uz c))"

text \<open>The lambda \<^verbatim>\<open>write_double3(src, dest)\<close> copies the three components of
  \<^verbatim>\<open>src\<close> into the array \<^verbatim>\<open>dest\<close>; the model returns the new contents of
  \<^verbatim>\<open>dest\<close>.\<close>

definition write_double3 :: "Vector3d \<Rightarrow> Vector3d" where
  "write_double3 src = (fst src, fst (snd src), snd (snd src))"

subsection \<open>Integers\<close>

text \<open>\<^verbatim>\<open>static_cast<int>(v.size())\<close>: the size is reduced modulo \<open>2 ^ 32\<close> and read as
  a signed 32-bit value.\<close>

definition static_cast_int :: "nat \<Rightarrow> int" where
  "static_cast_int n = sint (word_of_nat n :: 32 word)"

text \<open>\<^verbatim>\<open>to_string\<close> on an identifier: the decimal digits of its (non-negative) value.\<close>

fun to_string :: "nat \<Rightarrow> string" where
  "to_string n =
     (if n < 10 then [''0123456789'' ! n]
      else to_string (n div 10) @ [''0123456789'' ! (n mod 10)])"

declare to_string.simps [simp del]

text \<open>\<^verbatim>\<open>std::vector::resize(n)\<close> called with an \<^verbatim>\<open>int\<close>: a negative \<open>n\<close> converts
  to a size beyond \<^verbatim>\<open>max_size()\<close> and the call throws; otherwise the first \<open>n\<close>
  elements are kept and value-initialised elements are appended up to length \<open>n\<close>.\<close>

definition resize :: "int \<Rightarrow> 'a \<Rightarrow> 'a list \<Rightarrow> 'a list option" where
  "resize n dflt xs =
     (if n < 0 then None
      else Some (take (nat n) xs @ replicate (nat n - length xs) dflt))"

text \<open>\<^verbatim>\<open>for (int i = 0; i < n; ++i) body\<close> runs the body on the indices
  \<open>[0..<nat n]\<close> in order; an exception in the body ends the loop.\<close>

fun for_loop :: "nat list \<Rightarrow> (nat \<Rightarrow> 's \<Rightarrow> 's option) \<Rightarrow> 's \<Rightarrow> 's option" where
  "for_loop [] body s = Some s"
| "for_loop (i # is) body s =
     (case body i s of None \<Rightarrow> None | Some s' \<Rightarrow> for_loop is body s')"

subsection \<open>What the geometry engine provides\<close>

text \<open>Modelled from the spec: the types and accessors of the geometry engine (the
  identifiers, \<^verbatim>\<open>TriangleSurfaceMesh\<close>, the pressure field, \<^verbatim>\<open>ContactSurface\<close>,
  \<^verbatim>\<open>PenetrationAsPointPair\<close>, \<^verbatim>\<open>QueryObject\<close> and its inspector) are declared by the
  engine, outside the files of this repository. They follow the data model of the
  specification: a mesh is an ordered sequence of vertices and an ordered sequence of
  faces of three vertex indices, with the centroid the engine stores for it; a pressure
  field gives one value per vertex index; a face or a vertex index out of range is a
  contract violation that fails loudly. The computations of the query object are not
  modelled: the query object is given by what they return.\<close>

type_synonym GeometryId = nat

type_synonym SurfaceTriangle = "nat \<times> nat \<times> nat"

text \<open>\<^verbatim>\<open>face.vertex(i)\<close>; the code calls it with \<open>i = 0, 1, 2\<close> only.\<close>

fun face_vertex :: "SurfaceTriangle \<Rightarrow> nat \<Rightarrow> nat" where
  "face_vertex (a, b, c) i = (if i = 0 then a else if i = 1 then b else c)"

record TriangleSurfaceMesh =
  mesh_triangles :: "SurfaceTriangle list"
  mesh_vertices :: "Vector3d list"
  mesh_centroid :: Vector3d

text \<open>\<^verbatim>\<open>mesh.num_triangles()\<close> returns the number of faces as an \<^verbatim>\<open>int\<close>.\<close>

definition mesh_num_triangles :: "TriangleSurfaceMesh \<Rightarrow> int" where
  "mesh_num_triangles m = static_cast_int (length (mesh_triangles m))"

text \<open>\<^verbatim>\<open>mesh.element(e)\<close> and \<^verbatim>\<open>mesh.vertex(v)\<close> abort on an index out of range.\<close>

definition mesh_element :: "TriangleSurfaceMesh \<Rightarrow> nat \<Rightarrow> SurfaceTriangle option" where
  "mesh_element m e =
     (if e < length (mesh_triangles m) then Some (mesh_triangles m ! e) else None)"

definition mesh_vertex :: "TriangleSurfaceMesh \<Rightarrow> nat \<Rightarrow> Vector3d option" where
  "mesh_vertex m v =
     (if v < length (mesh_vertices m) then Some (mesh_vertices m ! v) else None)"

text \<open>The pressure field is given by one value per vertex;
  \<^verbatim>\<open>field.EvaluateAtVertex(v)\<close> reads the value stored for vertex \<open>v\<close>, and has no
  result for an index beyond the stored values.\<close>

definition EvaluateAtVertex :: "double list \<Rightarrow> nat \<Rightarrow> double option" where
  "EvaluateAtVertex field v = (if v < length field then Some (field ! v) else None)"

record ContactSurface =
  id_M :: GeometryId
  id_N :: GeometryId
  mesh_W :: TriangleSurfaceMesh
  e_MN :: "double list"

record PenetrationAsPointPair =
  id_A :: GeometryId
  id_B :: GeometryId
  p_WCa :: Vector3d
  p_WCb :: Vector3d
  nhat_BA_W :: Vector3d
  depth :: double

text \<open>The query object of one evaluation: the result of each of its two contact
  computations (\<^term>\<open>None\<close> when the computation throws, as the strict one does on a
  geometry pair without a hydroelastic representation) and the name lookup of its
  inspector (\<^term>\<open>None\<close> when the identifier is not registered and the lookup throws).\<close>

record QueryObject =
  ComputeContactSurfaces :: "ContactSurface list option"
  ComputeContactSurfacesWithFallback ::
    "(ContactSurface list \<times> PenetrationAsPointPair list) option"
  GetName :: "GeometryId \<Rightarrow> string option"

record Context =
  get_time :: double

subsection \<open>The message types\<close>

text \<open>Modelled from the spec: the message types are generated from message definitions
  outside the files of this repository. Their fields are those of the output message
  shape of the specification, which are the fields the function assigns; the counts are
  32-bit and the timestamps 64-bit signed integers.\<close>

record lcmt_hydroelastic_contact_surface_tri_for_viz =
  p_WA :: Vector3d
  p_WB :: Vector3d
  p_WC :: Vector3d
  pressure_A :: double
  pressure_B :: double
  pressure_C :: double

record lcmt_hydroelastic_quadrature_per_point_data_for_viz =
  p_WQ :: Vector3d
  vt_BqAq_W :: Vector3d
  traction_Aq_W :: Vector3d

text \<open>The two name fields of a surface message carry the prefix \<open>surf_\<close>, and the
  timestamp of a point pair message the prefix \<open>pp_\<close>, to keep them apart from the
  fields of the same name in the other message types.\<close>

record lcmt_hydroelastic_contact_surface_for_viz =
  surf_body1_name :: string
  surf_body2_name :: string
  centroid_W :: Vector3d
  force_C_W :: Vector3d
  moment_C_W :: Vector3d
  num_quadrature_points :: int
  quadrature_point_data :: "lcmt_hydroelastic_quadrature_per_point_data_for_viz list"
  num_triangles :: int
  triangles :: "lcmt_hydroelastic_contact_surface_tri_for_viz list"

record lcmt_point_pair_contact_info_for_viz =
  pp_timestamp :: int
  body1_name :: string
  body2_name :: string
  contact_point :: Vector3d
  contact_force :: Vector3d
  normal :: Vector3d

record lcmt_contact_results_for_viz =
  timestamp :: int
  num_point_pair_contacts :: int
  point_pair_contact_info :: "lcmt_point_pair_contact_info_for_viz list"
  num_hydroelastic_contacts :: int
  hydroelastic_contacts :: "lcmt_hydroelastic_contact_surface_for_viz list"

text \<open>Value-initialised messages: what \<^verbatim>\<open>resize\<close> appends, and what a freshly
  allocated output holds.\<close>

definition zero3 :: Vector3d where
  "zero3 = (Finite 0, Finite 0, Finite 0)"

definition default_tri :: lcmt_hydroelastic_contact_surface_tri_for_viz where
  "default_tri =
     \<lparr>p_WA = zero3, p_WB = zero3, p_WC = zero3,
      pressure_A = Finite 0, pressure_B = Finite 0, pressure_C = Finite 0\<rparr>"

definition default_quad :: lcmt_hydroelastic_quadrature_per_point_data_for_viz where
  "default_quad = \<lparr>p_WQ = zero3, vt_BqAq_W = zero3, traction_Aq_W = zero3\<rparr>"

definition default_surface :: lcmt_hydroelastic_contact_surface_for_viz where
  "default_surface =
     \<lparr>surf_body1_name = [], surf_body2_name = [], centroid_W = zero3,
      force_C_W = zero3, moment_C_W = zero3, num_quadrature_points = 0,
      quadrature_point_data = [], num_triangles = 0, triangles = []\<rparr>"

definition default_info :: lcmt_point_pair_contact_info_for_viz where
  "default_info =
     \<lparr>pp_timestamp = 0, body1_name = [], body2_name = [], contact_point = zero3,
      contact_force = zero3, normal = zero3\<rparr>"

definition default_results :: lcmt_contact_results_for_viz where
  "default_results =
     \<lparr>timestamp = 0, num_point_pair_contacts = 0, point_pair_contact_info = [],
      num_hydroelastic_contacts = 0, hydroelastic_contacts = []\<rparr>"

subsection \<open>CalcContactResults\<close>

text \<open>The body of the loop over the triangles of one surface (source lines 261 to
  285): it fills element \<open>j\<close> of \<^verbatim>\<open>triangles\<close> and of \<^verbatim>\<open>quadrature_point_data\<close>.\<close>

definition triangle_step ::
  "TriangleSurfaceMesh \<Rightarrow> double list \<Rightarrow> nat \<Rightarrow> lcmt_hydroelastic_contact_surface_for_viz
   \<Rightarrow> lcmt_hydroelastic_contact_surface_for_viz option" where
  "triangle_step mesh field j surface_msg = do {
     let tri_msg = triangles surface_msg ! j;
     let quad_msg = quadrature_point_data surface_msg ! j;
     face \<leftarrow> mesh_element mesh j;
     vA \<leftarrow> mesh_vertex mesh (face_vertex face 0);
     vB \<leftarrow> mesh_vertex mesh (face_vertex face 1);
     vC \<leftarrow> mesh_vertex mesh (face_vertex face 2);
     let tri_msg = tri_msg\<lparr>p_WA := write_double3 vA\<rparr>;
     let tri_msg = tri_msg\<lparr>p_WB := write_double3 vB\<rparr>;
     let tri_msg = tri_msg\<lparr>p_WC := write_double3 vC\<rparr>;
     let quad_msg = quad_msg\<lparr>p_WQ := write_double3 (vec_div (vec_add (vec_add vA vB) vC) (dbl 3))\<rparr>;
     pA \<leftarrow> EvaluateAtVertex field (face_vertex face 0);
     let tri_msg = tri_msg\<lparr>pressure_A := pA\<rparr>;
     pB \<leftarrow> EvaluateAtVertex field (face_vertex face 1);
     let tri_msg = tri_msg\<lparr>pressure_B := pB\<rparr>;
     pC \<leftarrow> EvaluateAtVertex field (face_vertex face 2);
     let tri_msg = tri_msg\<lparr>pressure_C := pC\<rparr>;
     let quad_msg = quad_msg\<lparr>vt_BqAq_W := write_double3 (dbl 0, dbl 0.2, dbl 0)\<rparr>;
     let quad_msg = quad_msg\<lparr>traction_Aq_W := write_double3 (dbl 0, fneg (dbl 0.2), dbl 0)\<rparr>;
     Some (surface_msg
       \<lparr>triangles := (triangles surface_msg)[j := tri_msg],
        quadrature_point_data := (quadrature_point_data surface_msg)[j := quad_msg]\<rparr>)
   }"

text \<open>The body of the loop over the surfaces (source lines 245 to 288), on the
  message element \<^verbatim>\<open>surface_msg\<close> it refers to.\<close>

definition encode_surface ::
  "ContactSurface \<Rightarrow> lcmt_hydroelastic_contact_surface_for_viz
   \<Rightarrow> lcmt_hydroelastic_contact_surface_for_viz option" where
  "encode_surface surface surface_msg = do {
     let surface_msg = surface_msg\<lparr>surf_body1_name := ''Id_'' @ to_string (id_M surface)\<rparr>;
     let surface_msg = surface_msg\<lparr>surf_body2_name := ''Id_'' @ to_string (id_N surface)\<rparr>;
     let mesh = mesh_W surface;
     let surface_msg = surface_msg\<lparr>num_triangles := mesh_num_triangles mesh\<rparr>;
     tris \<leftarrow> resize (num_triangles surface_msg) default_tri (triangles surface_msg);
     let surface_msg = surface_msg\<lparr>triangles := tris\<rparr>;
     let surface_msg = surface_msg\<lparr>centroid_W := write_double3 (mesh_centroid mesh)\<rparr>;
     let surface_msg = surface_msg\<lparr>num_quadrature_points := num_triangles surface_msg\<rparr>;
     quads \<leftarrow> resize (num_quadrature_points surface_msg) default_quad
                (quadrature_point_data surface_msg);
     let surface_msg = surface_msg\<lparr>quadrature_point_data := quads\<rparr>;
     let field = e_MN surface;
     surface_msg \<leftarrow> for_loop [0..<nat (num_triangles surface_msg)]
                      (triangle_step mesh field) surface_msg;
     let surface_msg = surface_msg\<lparr>force_C_W := write_double3 (dbl 1, dbl 0, dbl 0)\<rparr>;
     let surface_msg = surface_msg\<lparr>moment_C_W := write_double3 (dbl 0, dbl 0, dbl 1)\<rparr>;
     Some surface_msg
   }"

definition surface_step ::
  "ContactSurface list \<Rightarrow> nat \<Rightarrow> lcmt_hydroelastic_contact_surface_for_viz list
   \<Rightarrow> lcmt_hydroelastic_contact_surface_for_viz list option" where
  "surface_step surfaces i contacts = do {
     surface_msg \<leftarrow> encode_surface (surfaces ! i) (contacts ! i);
     Some (contacts[i := surface_msg])
   }"

text \<open>The body of the loop over the point pairs (source lines 293 to 306), on the
  message element \<^verbatim>\<open>info_msg\<close> it refers to. The field \<^verbatim>\<open>body1_name\<close> is assigned
  twice, as in the source.\<close>

definition encode_point_pair ::
  "int \<Rightarrow> QueryObject \<Rightarrow> PenetrationAsPointPair \<Rightarrow> lcmt_point_pair_contact_info_for_viz
   \<Rightarrow> lcmt_point_pair_contact_info_for_viz option" where
  "encode_point_pair msg_timestamp query_object pair info_msg = do {
     let info_msg = info_msg\<lparr>pp_timestamp := msg_timestamp\<rparr>;
     name_A \<leftarrow> GetName query_object (id_A pair);
     let info_msg = info_msg\<lparr>body1_name := name_A\<rparr>;
     name_B \<leftarrow> GetName query_object (id_B pair);
     let info_msg = info_msg\<lparr>body1_name := name_B\<rparr>;
     let contact_point_v = vec_div (vec_add (p_WCa pair) (p_WCb pair)) (dbl 2);
     let info_msg = info_msg\<lparr>contact_point := write_double3 contact_point_v\<rparr>;
     let info_msg = info_msg\<lparr>contact_force := write_double3 (nhat_BA_W pair)\<rparr>;
     let info_msg = info_msg\<lparr>normal := write_double3 (nhat_BA_W pair)\<rparr>;
     Some info_msg
   }"

definition pair_step ::
  "int \<Rightarrow> QueryObject \<Rightarrow> PenetrationAsPointPair list \<Rightarrow> nat
   \<Rightarrow> lcmt_point_pair_contact_info_for_viz list
   \<Rightarrow> lcmt_point_pair_contact_info_for_viz list option" where
  "pair_step msg_timestamp query_object points i infos = do {
     info_msg \<leftarrow> encode_point_pair msg_timestamp query_object (points ! i) (infos ! i);
     Some (infos[i := info_msg])
   }"

text \<open>The contact query (source lines 220 to 226): the strict computation leaves
  \<^verbatim>\<open>points\<close> as it was constructed, empty.\<close>

definition compute_contacts ::
  "bool \<Rightarrow> QueryObject \<Rightarrow> (ContactSurface list \<times> PenetrationAsPointPair list) option" where
  "compute_contacts use_strict_hydro query_object =
     (if use_strict_hydro
      then map_option (\<lambda>surfaces. (surfaces, [])) (ComputeContactSurfaces query_object)
      else ComputeContactSurfacesWithFallback query_object)"

definition CalcContactResults ::
  "bool \<Rightarrow> Context \<Rightarrow> QueryObject \<Rightarrow> lcmt_contact_results_for_viz
   \<Rightarrow> lcmt_contact_results_for_viz option" where
  "CalcContactResults use_strict_hydro context query_object results = do {
     (surfaces, points) \<leftarrow> compute_contacts use_strict_hydro query_object;
     let num_surfaces = static_cast_int (length surfaces);
     let num_pairs = static_cast_int (length points);
     let msg = results;
     ts \<leftarrow> double_to_int64 (fmul (get_time context) (dbl 1000000));
     let msg = msg\<lparr>timestamp := ts\<rparr>;
     let msg = msg\<lparr>num_point_pair_contacts := num_pairs\<rparr>;
     infos \<leftarrow> resize num_pairs default_info (point_pair_contact_info msg);
     let msg = msg\<lparr>point_pair_contact_info := infos\<rparr>;
     let msg = msg\<lparr>num_hydroelastic_contacts := num_surfaces\<rparr>;
     contacts \<leftarrow> resize num_surfaces default_surface (hydroelastic_contacts msg);
     let msg = msg\<lparr>hydroelastic_contacts := contacts\<rparr>;
     contacts \<leftarrow> for_loop [0..<nat num_surfaces] (surface_step surfaces)
                   (hydroelastic_contacts msg);
     let msg = msg\<lparr>hydroelastic_contacts := contacts\<rparr>;
     infos \<leftarrow> for_loop [0..<nat num_pairs] (pair_step (timestamp msg) query_object points)
               (point_pair_contact_info msg);
     let msg = msg\<lparr>point_pair_contact_info := infos\<rparr>;
     Some msg
   }"

subsection \<open>The loops in closed form\<close>

text \<open>What the loops compute, without the loop: the records below are what the
  statements of the function assign, read off field by field. The lemmas
  \<open>triangle_step_closed\<close> to \<open>CalcContactResults_closed\<close> prove that the embedding of the
  code computes exactly them.\<close>

definition face_ok :: "TriangleSurfaceMesh \<Rightarrow> double list \<Rightarrow> nat \<Rightarrow> bool" where
  "face_ok mesh field j \<longleftrightarrow>
     j < length (mesh_triangles mesh) \<and>
     list_all (\<lambda>k. face_vertex (mesh_triangles mesh ! j) k < length (mesh_vertices mesh) \<and>
                   face_vertex (mesh_triangles mesh ! j) k < length field) [0, 1, 2]"

definition tri_record ::
  "TriangleSurfaceMesh \<Rightarrow> double list \<Rightarrow> nat \<Rightarrow> lcmt_hydroelastic_contact_surface_tri_for_viz" where
  "tri_record mesh field j =
     (let face = mesh_triangles mesh ! j
      in \<lparr>p_WA = mesh_vertices mesh ! face_vertex face 0,
          p_WB = mesh_vertices mesh ! face_vertex face 1,
          p_WC = mesh_vertices mesh ! face_vertex face 2,
          pressure_A = field ! face_vertex face 0,
          pressure_B = field ! face_vertex face 1,
          pressure_C = field ! face_vertex face 2\<rparr>)"

definition quad_record ::
  "TriangleSurfaceMesh \<Rightarrow> nat \<Rightarrow> lcmt_hydroelastic_quadrature_per_point_data_for_viz" where
  "quad_record mesh j =
     (let face = mesh_triangles mesh ! j;
          vA = mesh_vertices mesh ! face_vertex face 0;
          vB = mesh_vertices mesh ! face_vertex face 1;
          vC = mesh_vertices mesh ! face_vertex face 2
      in \<lparr>p_WQ = vec_div (vec_add (vec_add vA vB) vC) (dbl 3),
          vt_BqAq_W = (dbl 0, dbl 0.2, dbl 0),
          traction_Aq_W = (dbl 0, fneg (dbl 0.2), dbl 0)\<rparr>)"

definition surface_ok :: "ContactSurface \<Rightarrow> bool" where
  "surface_ok surface \<longleftrightarrow>
     0 \<le> mesh_num_triangles (mesh_W surface) \<and>
     list_all (face_ok (mesh_W surface) (e_MN surface))
       [0..<nat (mesh_num_triangles (mesh_W surface))]"

definition surface_record :: "ContactSurface \<Rightarrow> lcmt_hydroelastic_contact_surface_for_viz" where
  "surface_record surface =
     (let mesh = mesh_W surface; n = mesh_num_triangles mesh
      in \<lparr>surf_body1_name = ''Id_'' @ to_string (id_M surface),
          surf_body2_name = ''Id_'' @ to_string (id_N surface),
          centroid_W = mesh_centroid mesh,
          force_C_W = (dbl 1, dbl 0, dbl 0),
          moment_C_W = (dbl 0, dbl 0, dbl 1),
          num_quadrature_points = n,
          quadrature_point_data = map (quad_record mesh) [0..<nat n],
          num_triangles = n,
          triangles = map (tri_record mesh (e_MN surface)) [0..<nat n]\<rparr>)"

definition pair_ok :: "QueryObject \<Rightarrow> PenetrationAsPointPair \<Rightarrow> bool" where
  "pair_ok query_object pair \<longleftrightarrow>
     GetName query_object (id_A pair) \<noteq> None \<and> GetName query_object (id_B pair) \<noteq> None"

definition pair_record ::
  "int \<Rightarrow> QueryObject \<Rightarrow> PenetrationAsPointPair \<Rightarrow> string
   \<Rightarrow> lcmt_point_pair_contact_info_for_viz" where
  "pair_record ts query_object pair old_body2 =
     \<lparr>pp_timestamp = ts,
      body1_name = the (GetName query_object (id_B pair)),
      body2_name = old_body2,
      contact_point = vec_div (vec_add (p_WCa pair) (p_WCb pair)) (dbl 2),
      contact_force = nhat_BA_W pair,
      normal = nhat_BA_W pair\<rparr>"

definition kept_body2_name :: "lcmt_contact_results_for_viz \<Rightarrow> nat \<Rightarrow> string" where
  "kept_body2_name results i =
     (if i < length (point_pair_contact_info results)
      then body2_name (point_pair_contact_info results ! i) else [])"

definition contacts_ok ::
  "QueryObject \<Rightarrow> ContactSurface list \<Rightarrow> PenetrationAsPointPair list \<Rightarrow> bool" where
  "contacts_ok query_object surfaces points \<longleftrightarrow>
     0 \<le> static_cast_int (length surfaces) \<and>
     0 \<le> static_cast_int (length points) \<and>
     list_all (\<lambda>i. surface_ok (surfaces ! i)) [0..<nat (static_cast_int (length surfaces))] \<and>
     list_all (\<lambda>i. pair_ok query_object (points ! i))
       [0..<nat (static_cast_int (length points))]"

definition results_record ::
  "int \<Rightarrow> QueryObject \<Rightarrow> ContactSurface list \<Rightarrow> PenetrationAsPointPair list
   \<Rightarrow> lcmt_contact_results_for_viz \<Rightarrow> lcmt_contact_results_for_viz" where
  "results_record ts query_object surfaces points results =
     \<lparr>timestamp = ts,
      num_point_pair_contacts = static_cast_int (length points),
      point_pair_contact_info =
        map (\<lambda>i. pair_record ts query_object (points ! i) (kept_body2_name results i))
          [0..<nat (static_cast_int (length points))],
      num_hydroelastic_contacts = static_cast_int (length surfaces),
      hydroelastic_contacts =
        map (\<lambda>i. surface_record (surfaces ! i)) [0..<nat (static_cast_int (length surfaces))]\<rparr>"

subsection \<open>Message objects that can reach an evaluation\<close>

text \<open>The output port owns one message object: it is allocated value-initialised, and
  every evaluation updates the object the previous one left.\<close>

inductive reachable :: "lcmt_contact_results_for_viz \<Rightarrow> bool" where
  fresh: "reachable default_results"
| step: "reachable r \<Longrightarrow> CalcContactResults strict ctx q r = Some msg \<Longrightarrow> reachable msg"

subsection \<open>Concrete snapshots\<close>

text \<open>Scenario B (one triangle with vertices \<open>(0,0,0)\<close>, \<open>(1,0,0)\<close>, \<open>(0,1,0)\<close> and
  pressures 10, 20, 30) and Scenario C (one point pair with near-points \<open>(0,0,1)\<close> and
  \<open>(0,0,0.8)\<close> and normal \<open>(0,0,1)\<close>), a query object that reports them, and the
  messages the code produces for them. The numbers are the binary64 values of the
  literals.\<close>

definition scenario_B_mesh :: TriangleSurfaceMesh where
  "scenario_B_mesh =
     \<lparr>mesh_triangles = [(0, 1, 2)],
      mesh_vertices = [(dbl 0, dbl 0, dbl 0), (dbl 1, dbl 0, dbl 0), (dbl 0, dbl 1, dbl 0)],
      mesh_centroid = (dbl (1 / 3), dbl (1 / 3), dbl 0)\<rparr>"

definition scenario_B_surface :: ContactSurface where
  "scenario_B_surface =
     \<lparr>id_M = 7, id_N = 12, mesh_W = scenario_B_mesh, e_MN = [dbl 10, dbl 20, dbl 30]\<rparr>"

definition scenario_C_pair :: PenetrationAsPointPair where
  "scenario_C_pair =
     \<lparr>id_A = 1, id_B = 2, p_WCa = (dbl 0, dbl 0, dbl 1), p_WCb = (dbl 0, dbl 0, dbl 0.8),
      nhat_BA_W = (dbl 0, dbl 0, dbl 1), depth = dbl 0.2\<rparr>"

definition scenario_names :: "GeometryId \<Rightarrow> string option" where
  "scenario_names g = (if g = 1 then Some ''can1'' else if g = 2 then Some ''can2'' else None)"

definition scenario_query :: QueryObject where
  "scenario_query =
     \<lparr>ComputeContactSurfaces = Some [scenario_B_surface],
      ComputeContactSurfacesWithFallback = Some ([scenario_B_surface], [scenario_C_pair]),
      GetName = scenario_names\<rparr>"

definition empty_query :: QueryObject where
  "empty_query =
     \<lparr>ComputeContactSurfaces = Some [],
      ComputeContactSurfacesWithFallback = Some ([], []),
      GetName = (\<lambda>g. None)\<rparr>"

definition scenario_context :: Context where
  "scenario_context = \<lparr>get_time = dbl 1.5\<rparr>"

definition scenario_results :: lcmt_contact_results_for_viz where
  "scenario_results =
     \<lparr>timestamp = 1500000,
      num_point_pair_contacts = 1,
      point_pair_contact_info =
        [\<lparr>pp_timestamp = 1500000, body1_name = ''can2'', body2_name = [],
          contact_point = (dbl 0, dbl 0, dbl 0.9), contact_force = (dbl 0, dbl 0, dbl 1),
          normal = (dbl 0, dbl 0, dbl 1)\<rparr>],
      num_hydroelastic_contacts = 1,
      hydroelastic_contacts =
        [\<lparr>surf_body1_name = ''Id_7'', surf_body2_name = ''Id_12'',
          centroid_W = (dbl (1 / 3), dbl (1 / 3), dbl 0),
          force_C_W = (dbl 1, dbl 0, dbl 0), moment_C_W = (dbl 0, dbl 0, dbl 1),
          num_quadrature_points = 1,
          quadrature_point_data =
            [\<lparr>p_WQ = (dbl (1 / 3), dbl (1 / 3), dbl 0), vt_BqAq_W = (dbl 0, dbl 0.2, dbl 0),
              traction_Aq_W = (dbl 0, fneg (dbl 0.2), dbl 0)\<rparr>],
          num_triangles = 1,
          triangles =
            [\<lparr>p_WA = (dbl 0, dbl 0, dbl 0), p_WB = (dbl 1, dbl 0, dbl 0),
              p_WC = (dbl 0, dbl 1, dbl 0),
              pressure_A = dbl 10, pressure_B = dbl 20, pressure_C = dbl 30\<rparr>]\<rparr>]\<rparr>"

definition empty_results :: "int \<Rightarrow> lcmt_contact_results_for_viz" where
  "empty_results ts =
     \<lparr>timestamp = ts, num_point_pair_contacts = 0, point_pair_contact_info = [],
      num_hydroelastic_contacts = 0, hydroelastic_contacts = []\<rparr>"

definition other_query :: QueryObject where
  "other_query =
     \<lparr>ComputeContactSurfaces = Some [scenario_B_surface],
      ComputeContactSurfacesWithFallback = None,
      GetName = (\<lambda>g. None)\<rparr>"

definition fallback_only_query :: QueryObject where
  "fallback_only_query =
     \<lparr>ComputeContactSurfaces = None,
      ComputeContactSurfacesWithFallback = Some ([scenario_B_surface], [scenario_C_pair]),
      GetName = scenario_names\<rparr>"

definition strict_results :: lcmt_contact_results_for_viz where
  "strict_results =
     scenario_results\<lparr>num_point_pair_contacts := 0, point_pair_contact_info := []\<rparr>"

definition stale_info :: lcmt_point_pair_contact_info_for_viz where
  "stale_info = default_info\<lparr>body1_name := ''old1'', body2_name := ''old2''\<rparr>"

definition scenario_info :: lcmt_point_pair_contact_info_for_viz where
  "scenario_info =
     \<lparr>pp_timestamp = 1500000, body1_name = ''can2'', body2_name = ''old2'',
      contact_point = (dbl 0, dbl 0, dbl 0.9), contact_force = (dbl 0, dbl 0, dbl 1),
      normal = (dbl 0, dbl 0, dbl 1)\<rparr>"

definition oversized_query :: QueryObject where
  "oversized_query =
     \<lparr>ComputeContactSurfaces = Some (replicate (2 ^ 32) scenario_B_surface),
      ComputeContactSurfacesWithFallback = None,
      GetName = (\<lambda>g. None)\<rparr>"

text \<open>Snapshots on which the arithmetic of the code rounds or overflows: a triangle
  whose first vertex components are \<open>1\<close>, \<open>1\<close> and \<open>2 ^ -52\<close>, a point pair whose third
  near-point components are \<open>1\<close> and \<open>2 ^ -53\<close>, one whose third near-point components
  are both \<open>2 ^ 1023\<close>, and a query result of \<open>2 ^ 32\<close> point pairs.\<close>

definition rounding_surface :: ContactSurface where
  "rounding_surface =
     \<lparr>id_M = 7, id_N = 12,
      mesh_W = \<lparr>mesh_triangles = [(0, 1, 2)],
                mesh_vertices = [(Finite 1, Finite 0, Finite 0), (Finite 1, Finite 0, Finite 0),
                                 (Finite (1 / 4503599627370496), Finite 0, Finite 0)],
                mesh_centroid = (Finite 0, Finite 0, Finite 0)\<rparr>,
      e_MN = [dbl 10, dbl 20, dbl 30]\<rparr>"

definition rounding_query :: QueryObject where
  "rounding_query =
     \<lparr>ComputeContactSurfaces = Some [rounding_surface],
      ComputeContactSurfacesWithFallback = None,
      GetName = (\<lambda>g. None)\<rparr>"

definition half_ulp_pair :: PenetrationAsPointPair where
  "half_ulp_pair =
     \<lparr>id_A = 1, id_B = 2,
      p_WCa = (Finite 0, Finite 0, Finite 1),
      p_WCb = (Finite 0, Finite 0, Finite (1 / 9007199254740992)),
      nhat_BA_W = (Finite 0, Finite 0, Finite 1), depth = Finite 0\<rparr>"

definition overflow_pair :: PenetrationAsPointPair where
  "overflow_pair =
     \<lparr>id_A = 1, id_B = 2,
      p_WCa = (Finite 0, Finite 0, Finite (2 ^ 1023)),
      p_WCb = (Finite 0, Finite 0, Finite (2 ^ 1023)),
      nhat_BA_W = (Finite 0, Finite 0, Finite 1), depth = Finite 0\<rparr>"

definition extreme_query :: QueryObject where
  "extreme_query =
     \<lparr>ComputeContactSurfaces = None,
      ComputeContactSurfacesWithFallback = Some ([], [half_ulp_pair, overflow_pair]),
      GetName = scenario_names\<rparr>"

definition rounding_results :: lcmt_contact_results_for_viz where
  "rounding_results =
     \<lparr>timestamp = 1500000,
      num_point_pair_contacts = 0,
      point_pair_contact_info = [],
      num_hydroelastic_contacts = 1,
      hydroelastic_contacts =
        [\<lparr>surf_body1_name = ''Id_7'', surf_body2_name = ''Id_12'',
          centroid_W = (Finite 0, Finite 0, Finite 0),
          force_C_W = (dbl 1, dbl 0, dbl 0), moment_C_W = (dbl 0, dbl 0, dbl 1),
          num_quadrature_points = 1,
          quadrature_point_data =
            [\<lparr>p_WQ = (Finite (6004799503160661 / 9007199254740992), Finite 0, Finite 0),
              vt_BqAq_W = (dbl 0, dbl 0.2, dbl 0),
              traction_Aq_W = (dbl 0, fneg (dbl 0.2), dbl 0)\<rparr>],
          num_triangles = 1,
          triangles =
            [\<lparr>p_WA = (Finite 1, Finite 0, Finite 0), p_WB = (Finite 1, Finite 0, Finite 0),
              p_WC = (Finite (1 / 4503599627370496), Finite 0, Finite 0),
              pressure_A = dbl 10, pressure_B = dbl 20, pressure_C = dbl 30\<rparr>]\<rparr>]\<rparr>"

definition extreme_results :: lcmt_contact_results_for_viz where
  "extreme_results =
     \<lparr>timestamp = 1500000,
      num_point_pair_contacts = 2,
      point_pair_contact_info =
        [\<lparr>pp_timestamp = 1500000, body1_name = ''can2'', body2_name = [],
          contact_point = (Finite 0, Finite 0, Finite (1 / 2)),
          contact_force = (Finite 0, Finite 0, Finite 1),
          normal = (Finite 0, Finite 0, Finite 1)\<rparr>,
         \<lparr>pp_timestamp = 1500000, body1_name = ''can2'', body2_name = [],
          contact_point = (Finite 0, Finite 0, PosInf),
          contact_force = (Finite 0, Finite 0, Finite 1),
          normal = (Finite 0, Finite 0, Finite 1)\<rparr>],
      num_hydroelastic_contacts = 0,
      hydroelastic_contacts = []\<rparr>"

definition oversized_pairs_query :: QueryObject where
  "oversized_pairs_query =
     \<lparr>ComputeContactSurfaces = None,
      ComputeContactSurfacesWithFallback = Some ([], replicate (2 ^ 32) scenario_C_pair),
      GetName = scenario_names\<rparr>"

section \<open>Properties of the embedding\<close>

subsection \<open>Binary64 rounding\<close>

lemma of_int_pow2_le: "2 ^ k \<le> n \<Longrightarrow> (2::real) ^ k \<le> of_int n" for n :: int
proof -
  assume "2 ^ k \<le> n"
  then have "real_of_int (2 ^ k) \<le> real_of_int n" by (simp only: of_int_le_iff)
  then show ?thesis by simp
qed

lemma of_int_le_pow2: "n \<le> 2 ^ k \<Longrightarrow> of_int n \<le> (2::real) ^ k" for n :: int
proof -
  assume "n \<le> 2 ^ k"
  then have "real_of_int n \<le> real_of_int (2 ^ k)" by (simp only: of_int_le_iff)
  then show ?thesis by simp
qed

lemma floor_log2_lower:
  assumes "0 < x"
  shows "2 powi (floor_log2 x) \<le> x"
proof (cases "1 \<le> x")
  case True
  define n where "n = \<lfloor>x\<rfloor>"
  have n: "0 < n" using True by (simp add: n_def)
  from bitlen_bounds [OF n] have "2 ^ nat (bitlen n - 1) \<le> n" by simp
  then have "(2::real) ^ nat (bitlen n - 1) \<le> of_int n"
    by (rule of_int_pow2_le)
  also have "\<dots> \<le> x" by (simp add: n_def)
  finally have le: "(2::real) ^ nat (bitlen n - 1) \<le> x" .
  have nn: "0 \<le> bitlen n - 1"
    using n by (simp add: bitlen_alt_def)
  have "floor_log2 x = bitlen n - 1"
    using True by (simp add: floor_log2_def n_def)
  then show ?thesis
    using le nn by (simp add: power_int_def)
next
  case False
  define n where "n = \<lceil>1 / x\<rceil> - 1"
  from False assms have "1 < 1 / x" by simp
  then have n: "0 < n" unfolding n_def by linarith
  have up: "1 / x \<le> of_int n + 1" unfolding n_def by simp
  from bitlen_bounds [OF n] have "n < 2 ^ nat (bitlen n)" by simp
  then have "n + 1 \<le> 2 ^ nat (bitlen n)" by simp
  then have "of_int (n + 1) \<le> (2::real) ^ nat (bitlen n)"
    by (rule of_int_le_pow2)
  with up have "1 / x \<le> 2 ^ nat (bitlen n)" by simp
  then have le: "1 / 2 ^ nat (bitlen n) \<le> x"
    using assms by (simp add: field_simps)
  have pos: "0 < bitlen n"
    using n by (simp add: bitlen_alt_def)
  have "floor_log2 x = - bitlen n"
    using False by (simp add: floor_log2_def n_def)
  then show ?thesis
    using le pos by (simp add: power_int_def inverse_eq_divide power_divide)
qed


lemma floor_log2_upper:
  assumes "0 < x"
  shows "x < 2 powi (floor_log2 x + 1)"
proof (cases "1 \<le> x")
  case True
  define n where "n = \<lfloor>x\<rfloor>"
  have n: "0 < n" using True by (simp add: n_def)
  have "x < of_int (n + 1)" by (simp add: n_def)
  also have "\<dots> \<le> (2::real) ^ nat (bitlen n)"
  proof (rule of_int_le_pow2)
    from bitlen_bounds [OF n] show "n + 1 \<le> 2 ^ nat (bitlen n)" by simp
  qed
  finally have lt: "x < 2 ^ nat (bitlen n)" .
  have "floor_log2 x + 1 = bitlen n"
    using True by (simp add: floor_log2_def n_def)
  then show ?thesis
    using lt bitlen_nonneg [of n] by (simp add: power_int_def)
next
  case False
  define n where "n = \<lceil>1 / x\<rceil> - 1"
  from False assms have "1 < 1 / x" by simp
  then have n: "0 < n" unfolding n_def by linarith
  have pos: "0 < bitlen n"
    using n by (simp add: bitlen_alt_def)
  have "(2::real) ^ nat (bitlen n - 1) \<le> of_int n"
  proof (rule of_int_pow2_le)
    from bitlen_bounds [OF n] show "2 ^ nat (bitlen n - 1) \<le> n" by simp
  qed
  also have "of_int n < 1 / x" unfolding n_def by linarith
  finally have "x * 2 ^ nat (bitlen n - 1) < 1"
    using assms by (simp add: field_simps)
  then have lt: "x < 1 / 2 ^ nat (bitlen n - 1)"
    by (simp add: field_simps)
  have e: "floor_log2 x + 1 = - (bitlen n - 1)"
    using False by (simp add: floor_log2_def n_def)
  show ?thesis
  proof (cases "bitlen n = 1")
    case True
    with lt e show ?thesis by simp
  next
    case False
    with pos have "\<not> 0 \<le> - (bitlen n - 1)" by simp
    with lt show ?thesis
      unfolding e by (simp add: power_int_def inverse_eq_divide power_divide)
  qed
qed

lemma floor_log2_eqI:
  assumes "2 powi e \<le> x" and "x < 2 powi (e + 1)"
  shows "floor_log2 x = e"
proof -
  have pos: "0 < x"
    using assms(1) zero_less_power_int [of "2::real" e] by linarith
  have "floor_log2 x < e + 1"
  proof (rule ccontr)
    assume "\<not> floor_log2 x < e + 1"
    then have "(2::real) powi (e + 1) \<le> 2 powi (floor_log2 x)"
      by (intro power_int_increasing) simp_all
    with floor_log2_lower [OF pos] assms(2) show False by linarith
  qed
  moreover have "e < floor_log2 x + 1"
  proof (rule ccontr)
    assume "\<not> e < floor_log2 x + 1"
    then have "(2::real) powi (floor_log2 x + 1) \<le> 2 powi e"
      by (intro power_int_increasing) simp_all
    with floor_log2_upper [OF pos] assms(1) show False by linarith
  qed
  ultimately show ?thesis by simp
qed

lemma round_binary64_eqI:
  assumes "2 powi e \<le> \<bar>x\<bar>" and "\<bar>x\<bar> < 2 powi (e + 1)"
  shows "round_binary64 x =
     (let u = max (e - 52) (- 1074);
          y = of_int (round_half_even (x / 2 powi u)) * 2 powi u
      in if 2 ^ 1024 \<le> y then PosInf
         else if y \<le> - (2 ^ 1024) then NegInf
         else Finite y)"
proof -
  have "\<not> (2::real) powi e \<le> 0" by (simp add: not_le)
  with assms(1) have "x \<noteq> 0" by auto
  then show ?thesis
    by (simp add: round_binary64_def floor_log2_eqI [OF assms])
qed

lemma round_half_even_of_int [simp]: "round_half_even (of_int k) = k"
  by (simp add: round_half_even_def)

lemma round_binary64_exact:
  assumes "is_binary64 x"
  shows "round_binary64 x = Finite x"
proof (cases "x = 0")
  case True
  then show ?thesis by (simp add: round_binary64_def)
next
  case False
  from assms obtain m e where x: "x = of_int m * 2 powi e"
    and m: "\<bar>m\<bar> < 2 ^ 53" and e: "- 1074 \<le> e" and fin: "\<bar>x\<bar> < 2 ^ 1024"
    by (auto simp: is_binary64_def)
  define E where "E = floor_log2 \<bar>x\<bar>"
  define u where "u = max (E - 52) (- 1074)"
  have pos: "0 < \<bar>x\<bar>" using False by simp
  have "of_int \<bar>m\<bar> < (2::real) ^ 53"
    using m of_int_less_iff [of "\<bar>m\<bar>" "2 ^ 53", where ?'a = real] by simp
  then have "\<bar>x\<bar> < 2 ^ 53 * 2 powi e"
    by (simp add: x abs_mult)
  also have "\<dots> = 2 powi (53 + e)"
    by (simp add: power_int_add)
  finally have "2 powi E < (2::real) powi (53 + e)"
    using floor_log2_lower [OF pos] unfolding E_def by linarith
  then have "E < 53 + e"
    by (metis not_le one_le_numeral power_int_increasing leD)
  with e have ue: "u \<le> e" by (simp add: u_def)
  have "x / 2 powi u = of_int m * 2 powi (e - u)"
    by (simp add: x power_int_diff)
  also have "\<dots> = of_int (m * 2 ^ nat (e - u))"
    using ue by (simp add: power_int_def)
  finally have k: "x / 2 powi u = of_int (m * 2 ^ nat (e - u))" .
  have y: "of_int (round_half_even (x / 2 powi u)) * 2 powi u = x"
    unfolding k round_half_even_of_int
    unfolding k [symmetric] by simp
  from fin have "\<not> 2 ^ 1024 \<le> x" "\<not> x \<le> - (2 ^ 1024)" by linarith+
  then show ?thesis
    using False y by (simp add: round_binary64_def Let_def flip: E_def u_def)
qed

lemma round_half_even_nonneg: "0 \<le> x \<Longrightarrow> 0 \<le> round_half_even x"
  by (simp add: round_half_even_def Let_def)

lemma round_binary64_nonneg:
  assumes "0 \<le> x" and "round_binary64 x = Finite p"
  shows "0 \<le> p"
proof (cases "x = 0")
  case True
  with assms(2) show ?thesis by (simp add: round_binary64_def)
next
  case False
  define u where "u = max (floor_log2 \<bar>x\<bar> - 52) (- 1074)"
  have "0 \<le> x / 2 powi u" using assms(1) by simp
  then have "0 \<le> round_half_even (x / 2 powi u)" by (rule round_half_even_nonneg)
  then have "0 \<le> real_of_int (round_half_even (x / 2 powi u)) * 2 powi u" by simp
  moreover from assms(2) False
  have "p = real_of_int (round_half_even (x / 2 powi u)) * 2 powi u"
    by (simp add: round_binary64_def Let_def u_def split: if_splits)
  ultimately show ?thesis by simp
qed

lemma fadd_exact: "is_binary64 (x + y) \<Longrightarrow> fadd (Finite x) (Finite y) = Finite (x + y)"
  by (simp add: round_binary64_exact)

lemma fdiv_exact:
  "y \<noteq> 0 \<Longrightarrow> is_binary64 (x / y) \<Longrightarrow> fdiv (Finite x) (Finite y) = Finite (x / y)"
  by (simp add: round_binary64_exact)

lemma fmul_exact: "is_binary64 (x * y) \<Longrightarrow> fmul (Finite x) (Finite y) = Finite (x * y)"
  by (simp add: round_binary64_exact)

lemma is_binary64_fraction:
  assumes "x = of_int m / 2 ^ n" and "\<bar>m\<bar> < 2 ^ 53" and "n \<le> 1074"
  shows "is_binary64 x"
proof -
  have x: "x = of_int m * 2 powi (- int n)"
    by (simp add: assms(1) power_int_minus field_simps)
  have "\<bar>x\<bar> \<le> of_int \<bar>m\<bar>"
    by (simp add: assms(1) abs_divide field_simps mult_le_cancel_left1 flip: of_int_abs)
  also have "\<dots> < 2 ^ 53"
    using assms(2) of_int_less_iff [of "\<bar>m\<bar>" "2 ^ 53", where ?'a = real] by simp
  also have "(2::real) ^ 53 \<le> 2 ^ 1024"
    by (rule power_increasing) simp_all
  finally have "\<bar>x\<bar> < 2 ^ 1024" .
  moreover have "- 1074 \<le> - int n" using assms(3) by simp
  ultimately show ?thesis
    unfolding is_binary64_def using x assms(2) by blast
qed

lemma is_binary64_power:
  assumes "n < 1024"
  shows "is_binary64 (2 ^ n)"
proof -
  have "(2::real) ^ n = of_int 1 * 2 powi (int n)" by simp
  moreover have "\<bar>1::int\<bar> < 2 ^ 53" by simp
  moreover have "- 1074 \<le> int n" by simp
  moreover have "\<bar>(2::real) ^ n\<bar> < 2 ^ 1024"
  proof -
    have "(2::real) ^ n < 2 ^ 1024"
      using assms by (intro power_strict_increasing) simp_all
    moreover have "\<bar>(2::real) ^ n\<bar> = 2 ^ n"
      by (rule abs_of_nonneg) (rule zero_le_power, simp)
    ultimately show ?thesis by (simp only:)
  qed
  ultimately show ?thesis
    unfolding is_binary64_def by blast
qed

text \<open>The roundings the concrete snapshots need.\<close>

lemma round_binary64_values:
  "round_binary64 0 = Finite 0"
  "round_binary64 1 = Finite 1"
  "round_binary64 2 = Finite 2"
  "round_binary64 3 = Finite 3"
  "round_binary64 1000000 = Finite 1000000"
  "round_binary64 1500000 = Finite 1500000"
  "round_binary64 (3 / 2) = Finite (3 / 2)"
  "round_binary64 (4 / 5) = Finite (3602879701896397 / 4503599627370496)"
  "round_binary64 (9 / 10) = Finite (8106479329266893 / 9007199254740992)"
  "round_binary64 (3 / 10) = Finite (5404319552844595 / 18014398509481984)"
  "round_binary64 (8106479329266893 / 4503599627370496)
     = Finite (8106479329266893 / 4503599627370496)"
  "round_binary64 (8106479329266893 / 9007199254740992)
     = Finite (8106479329266893 / 9007199254740992)"
  "round_binary64 (15625 / 16384) = Finite (15625 / 16384)"
  "round_binary64 (1 / 1048576) = Finite (1 / 1048576)"
            apply (simp add: round_binary64_def)
           apply (simp add: round_binary64_eqI [where e = 0] round_half_even_def)
          apply (simp add: round_binary64_eqI [where e = 1] round_half_even_def)
         apply (simp add: round_binary64_eqI [where e = 1] round_half_even_def)
        apply (simp add: round_binary64_eqI [where e = 19] round_half_even_def)
       apply (simp add: round_binary64_eqI [where e = 20] round_half_even_def)
      apply (simp add: round_binary64_eqI [where e = 0] round_half_even_def)
     apply (simp add: round_binary64_eqI [where e = "- 1"] round_half_even_def)
    apply (simp add: round_binary64_eqI [where e = "- 1"] round_half_even_def)
   apply (simp add: round_binary64_eqI [where e = "- 2"] round_half_even_def)
     apply (simp add: round_binary64_eqI [where e = 0] round_half_even_def)
    apply (simp add: round_binary64_eqI [where e = "- 1"] round_half_even_def)
   apply (simp add: round_binary64_eqI [where e = "- 1"] round_half_even_def)
   apply (simp add: round_binary64_eqI [where e = "- 20"] round_half_even_def)
  done

lemma dbl_values:
  "dbl 0 = Finite 0" "dbl 1 = Finite 1" "dbl 2 = Finite 2" "dbl 3 = Finite 3"
  "dbl 1000000 = Finite 1000000"
  by (simp_all add: dbl_def round_binary64_values)

lemma time_03: "fmul (dbl (3 / 10)) (dbl 1000000) = Finite 300000"
  by (simp add: dbl_def round_binary64_values round_binary64_eqI [where e = 18]
      round_half_even_def)

lemma time_03_exact:
  "dbl (3 / 10) = Finite (5404319552844595 / 18014398509481984) \<and>
   \<lfloor>5404319552844595 / 18014398509481984 * 1000000 :: real\<rfloor> = 299999"
  by (simp add: dbl_def round_binary64_values)

lemma time_tiny: "fmul (dbl (1 / 1048576)) (dbl 1000000) = Finite (15625 / 16384)"
  by (simp add: dbl_def round_binary64_values)

lemma time_scenario: "fmul (dbl (3 / 2)) (dbl 1000000) = Finite 1500000"
  by (simp add: dbl_def round_binary64_values)

lemma scenario_B_quadrature:
  "vec_div (vec_add (vec_add (dbl 0, dbl 0, dbl 0) (dbl 1, dbl 0, dbl 0)) (dbl 0, dbl 1, dbl 0))
     (dbl 3) = (dbl (1 / 3), dbl (1 / 3), dbl 0)"
  by (simp add: vec_add_def vec_div_def dbl_def round_binary64_values)

lemma scenario_C_midpoint:
  "vec_div (vec_add (dbl 0, dbl 0, dbl 1) (dbl 0, dbl 0, dbl (4 / 5))) (dbl 2)
     = (dbl 0, dbl 0, dbl (9 / 10))"
  by (simp add: vec_add_def vec_div_def dbl_def round_binary64_values)

lemma round_binary64_ties:
  "round_binary64 (9007199254740993 / 4503599627370496) = Finite 2"
  "round_binary64 (2 / 3) = Finite (6004799503160661 / 9007199254740992)"
  "round_binary64 (9007199254740993 / 9007199254740992) = Finite 1"
  "round_binary64 (1 / 2) = Finite (1 / 2)"
     apply (simp add: round_binary64_eqI [where e = 1] round_half_even_def)
    apply (simp add: round_binary64_eqI [where e = "- 1"] round_half_even_def)
   apply (simp add: round_binary64_eqI [where e = 0] round_half_even_def)
  apply (simp add: round_binary64_eqI [where e = "- 1"] round_half_even_def)
  done

lemma round_binary64_overflow: "round_binary64 (2 ^ 1023 + 2 ^ 1023) = PosInf"
  by (simp add: round_binary64_eqI [where e = 1024] round_half_even_def)

lemma rounding_quadrature:
  "vec_div (vec_add (vec_add (Finite 1, Finite 0, Finite 0) (Finite 1, Finite 0, Finite 0))
              (Finite (1 / 4503599627370496), Finite 0, Finite 0)) (dbl 3)
     = (Finite (6004799503160661 / 9007199254740992), Finite 0, Finite 0)"
  by (simp add: vec_add_def vec_div_def dbl_def round_binary64_values round_binary64_ties)

lemma half_ulp_midpoint:
  "vec_div (vec_add (Finite 0, Finite 0, Finite 1)
              (Finite 0, Finite 0, Finite (1 / 9007199254740992))) (dbl 2)
     = (Finite 0, Finite 0, Finite (1 / 2))"
  by (simp add: vec_add_def vec_div_def dbl_def round_binary64_values round_binary64_ties)

lemma overflow_midpoint:
  "vec_div (vec_add (Finite 0, Finite 0, Finite (2 ^ 1023))
              (Finite 0, Finite 0, Finite (2 ^ 1023))) (dbl 2)
     = (Finite 0, Finite 0, PosInf)"
  by (simp only: vec_add_def vec_div_def prod.case fadd.simps fdiv.simps dbl_def
      round_binary64_overflow)
     (simp add: round_binary64_values)

subsection \<open>Narrowing, loops and the closed form of the evaluation\<close>

lemma write_double3_id [simp]: "write_double3 v = v"
  by (simp add: write_double3_def)

lemma for_loop_append:
  "for_loop (xs @ ys) body s =
     (case for_loop xs body s of None \<Rightarrow> None | Some s' \<Rightarrow> for_loop ys body s')"
  by (induction xs arbitrary: s) (auto split: option.splits)

lemma for_loop_upt_Suc:
  "for_loop [0..<Suc n] body s =
     (case for_loop [0..<n] body s of None \<Rightarrow> None | Some s' \<Rightarrow> body n s')"
  by (simp add: for_loop_append split: option.splits)

lemma triangle_step_closed:
  "triangle_step mesh field j sm =
     (if face_ok mesh field j
      then Some (sm\<lparr>triangles := (triangles sm)[j := tri_record mesh field j],
                    quadrature_point_data := (quadrature_point_data sm)[j := quad_record mesh j]\<rparr>)
      else None)"
  by (cases "triangles sm ! j"; cases "quadrature_point_data sm ! j")
     (auto simp: triangle_step_def face_ok_def tri_record_def quad_record_def Let_def
        mesh_element_def mesh_vertex_def EvaluateAtVertex_def)

lemma update_after_prefix:
  assumes "length ys = n" "n < length xs"
  shows "(ys @ drop n xs)[n := v] = (ys @ [v]) @ drop (Suc n) xs"
proof -
  have "drop n xs = xs ! n # drop (Suc n) xs"
    using assms(2) by (simp add: Cons_nth_drop_Suc)
  then show ?thesis
    using assms(1) by (simp add: list_update_append)
qed

lemma triangle_loop_closed:
  assumes "n \<le> length (triangles sm)" "n \<le> length (quadrature_point_data sm)"
  shows "for_loop [0..<n] (triangle_step mesh field) sm =
     (if \<forall>j<n. face_ok mesh field j
      then Some (sm\<lparr>triangles := map (tri_record mesh field) [0..<n] @ drop n (triangles sm),
                    quadrature_point_data :=
                      map (quad_record mesh) [0..<n] @ drop n (quadrature_point_data sm)\<rparr>)
      else None)"
  using assms
proof (induction n)
  case 0
  then show ?case by simp
next
  case (Suc n)
  then have IH: "for_loop [0..<n] (triangle_step mesh field) sm =
     (if \<forall>j<n. face_ok mesh field j
      then Some (sm\<lparr>triangles := map (tri_record mesh field) [0..<n] @ drop n (triangles sm),
                    quadrature_point_data :=
                      map (quad_record mesh) [0..<n] @ drop n (quadrature_point_data sm)\<rparr>)
      else None)"
    by simp
  from Suc.prems have lt: "n < length (triangles sm)" "n < length (quadrature_point_data sm)"
    by simp_all
  show ?case
    unfolding for_loop_upt_Suc IH
    by (simp add: triangle_step_closed less_Suc_eq update_after_prefix [OF _ lt(1)]
        update_after_prefix [OF _ lt(2)] del: upt_Suc)
       (auto simp: less_Suc_eq)
qed

lemma list_loop_closed:
  assumes body: "\<And>i s. body i s = (case g i (s ! i) of None \<Rightarrow> None | Some v \<Rightarrow> Some (s[i := v]))"
    and len: "n \<le> length s"
  shows "for_loop [0..<n] body s =
     (if \<forall>i<n. g i (s ! i) \<noteq> None
      then Some (map (\<lambda>i. the (g i (s ! i))) [0..<n] @ drop n s)
      else None)"
  using len
proof (induction n)
  case 0
  then show ?case by simp
next
  case (Suc n)
  then have IH: "for_loop [0..<n] body s =
     (if \<forall>i<n. g i (s ! i) \<noteq> None
      then Some (map (\<lambda>i. the (g i (s ! i))) [0..<n] @ drop n s)
      else None)"
    by simp
  from Suc.prems have lt: "n < length s" by simp
  have nth: "(map (\<lambda>i. the (g i (s ! i))) [0..<n] @ drop n s) ! n = s ! n"
    using lt by (simp add: nth_append)
  show ?case
    unfolding for_loop_upt_Suc IH
    by (simp add: body nth update_after_prefix [OF _ lt] less_Suc_eq del: upt_Suc
          split: option.splits)
       (auto simp: less_Suc_eq)
qed

lemma encode_surface_closed:
  "encode_surface surface sm = (if surface_ok surface then Some (surface_record surface) else None)"
proof (cases "0 \<le> mesh_num_triangles (mesh_W surface)")
  case False
  then show ?thesis
    by (simp add: encode_surface_def surface_ok_def resize_def)
next
  case True
  show ?thesis
    using True
    by (cases sm)
       (simp add: encode_surface_def surface_ok_def surface_record_def resize_def Let_def
          triangle_loop_closed list_all_iff)
qed

lemma encode_point_pair_closed:
  "encode_point_pair ts q pair info =
     (if pair_ok q pair then Some (pair_record ts q pair (body2_name info)) else None)"
  by (cases info) (auto simp: encode_point_pair_def pair_ok_def pair_record_def Let_def)

lemma surface_loop_closed:
  assumes "n \<le> length contacts"
  shows "for_loop [0..<n] (surface_step surfaces) contacts =
     (if \<forall>i<n. surface_ok (surfaces ! i)
      then Some (map (\<lambda>i. surface_record (surfaces ! i)) [0..<n] @ drop n contacts)
      else None)"
proof -
  have body: "\<And>i s. surface_step surfaces i s =
      (case encode_surface (surfaces ! i) (s ! i) of None \<Rightarrow> None
       | Some v \<Rightarrow> Some (s[i := v]))"
    by (simp add: surface_step_def split: option.splits)
  show ?thesis
    unfolding list_loop_closed [of "surface_step surfaces" "\<lambda>i. encode_surface (surfaces ! i)",
        OF body assms]
    by (auto simp: encode_surface_closed)
qed

lemma pair_loop_closed:
  assumes "n \<le> length infos"
  shows "for_loop [0..<n] (pair_step ts q points) infos =
     (if \<forall>i<n. pair_ok q (points ! i)
      then Some (map (\<lambda>i. pair_record ts q (points ! i) (body2_name (infos ! i))) [0..<n]
                 @ drop n infos)
      else None)"
proof -
  have body: "\<And>i s. pair_step ts q points i s =
      (case encode_point_pair ts q (points ! i) (s ! i) of None \<Rightarrow> None
       | Some v \<Rightarrow> Some (s[i := v]))"
    by (simp add: pair_step_def split: option.splits)
  show ?thesis
    unfolding list_loop_closed [of "pair_step ts q points"
        "\<lambda>i. encode_point_pair ts q (points ! i)", OF body assms]
    by (auto simp: encode_point_pair_closed)
qed

lemma resized_nth:
  "i < n \<Longrightarrow> (take n xs @ replicate (n - length xs) d) ! i = (if i < length xs then xs ! i else d)"
  by (simp add: nth_append)

lemma CalcContactResults_closed:
  "CalcContactResults strict ctx q r =
     (case compute_contacts strict q of None \<Rightarrow> None
      | Some (surfaces, points) \<Rightarrow>
          (case double_to_int64 (fmul (get_time ctx) (dbl 1000000)) of None \<Rightarrow> None
           | Some ts \<Rightarrow>
               if contacts_ok q surfaces points
               then Some (results_record ts q surfaces points r) else None))"
proof (cases "compute_contacts strict q")
  case None
  then show ?thesis by (simp add: CalcContactResults_def)
next
  case (Some sp)
  obtain surfaces points where sp: "sp = (surfaces, points)" by (cases sp)
  show ?thesis
  proof (cases "double_to_int64 (fmul (get_time ctx) (dbl 1000000))")
    case None
    then show ?thesis by (simp add: CalcContactResults_def Some sp)
  next
    case ts: (Some ts)
    define ns where "ns = static_cast_int (length surfaces)"
    define np where "np = static_cast_int (length points)"
    show ?thesis
    proof (cases "0 \<le> ns \<and> 0 \<le> np")
      case False
      then show ?thesis
        by (auto simp: CalcContactResults_def Some sp ts resize_def contacts_ok_def ns_def np_def)
    next
      case True
      have kept: "map (\<lambda>i. pair_record ts q (points ! i)
                  (body2_name ((take (nat np) (point_pair_contact_info r) @
                     replicate (nat np - length (point_pair_contact_info r)) default_info) ! i)))
                [0..<nat np]
              = map (\<lambda>i. pair_record ts q (points ! i) (kept_body2_name r i)) [0..<nat np]"
        by (rule map_cong) (auto simp: resized_nth kept_body2_name_def default_info_def)
      show ?thesis
        using True kept
        by (cases r)
           (simp add: CalcContactResults_def Some sp ts resize_def contacts_ok_def
              results_record_def Let_def surface_loop_closed pair_loop_closed list_all_iff
              flip: ns_def np_def)
    qed
  qed
qed

lemma static_cast_int_eq_iff: "static_cast_int n = int n \<longleftrightarrow> n < 2 ^ 31"
proof -
  have "static_cast_int n = signed_take_bit 31 (int n)"
    by (simp add: static_cast_int_def signed_of_nat)
  then show ?thesis
    by (simp add: signed_take_bit_int_eq_self_iff)
qed

lemma static_cast_int_small: "n < 2 ^ 31 \<Longrightarrow> static_cast_int n = int n"
  by (simp add: static_cast_int_eq_iff)

lemma static_cast_int_le: "static_cast_int n \<le> int n"
  by (simp add: static_cast_int_def signed_of_nat signed_take_bit_int_less_eq_self_iff)

lemma CalcContactResults_SomeD:
  assumes "CalcContactResults strict ctx q r = Some msg"
  obtains surfaces points ts where
    "compute_contacts strict q = Some (surfaces, points)"
    "double_to_int64 (fmul (get_time ctx) (dbl 1000000)) = Some ts"
    "contacts_ok q surfaces points"
    "msg = results_record ts q surfaces points r"
  using assms unfolding CalcContactResults_closed
  by (auto split: option.splits if_splits)

lemma surface_record_counts:
  assumes "surface_ok surface"
  shows "num_triangles (surface_record surface) = int (length (triangles (surface_record surface)))"
    and "num_triangles (surface_record surface)
           = int (length (quadrature_point_data (surface_record surface)))"
    and "num_quadrature_points (surface_record surface) = num_triangles (surface_record surface)"
  using assms by (simp_all add: surface_ok_def surface_record_def Let_def)

lemma results_record_nth_surface:
  assumes "i < nat (static_cast_int (length surfaces))"
  shows "hydroelastic_contacts (results_record ts q surfaces points r) ! i
           = surface_record (surfaces ! i)"
  using assms by (simp add: results_record_def)

lemma results_record_nth_pair:
  assumes "i < nat (static_cast_int (length points))"
  shows "point_pair_contact_info (results_record ts q surfaces points r) ! i
           = pair_record ts q (points ! i) (kept_body2_name r i)"
  using assms by (simp add: results_record_def)

lemma results_record_lengths:
  "length (hydroelastic_contacts (results_record ts q surfaces points r))
     = nat (static_cast_int (length surfaces))"
  "length (point_pair_contact_info (results_record ts q surfaces points r))
     = nat (static_cast_int (length points))"
  by (simp_all add: results_record_def)

lemma contacts_okD:
  assumes "contacts_ok q surfaces points"
  shows "0 \<le> static_cast_int (length surfaces)" "0 \<le> static_cast_int (length points)"
    and "\<And>i. i < nat (static_cast_int (length surfaces)) \<Longrightarrow> surface_ok (surfaces ! i)"
    and "\<And>i. i < nat (static_cast_int (length points)) \<Longrightarrow> pair_ok q (points ! i)"
  using assms by (simp_all add: contacts_ok_def list_all_iff)

lemma kept_body2_name_clear:
  assumes "\<forall>p \<in> set (point_pair_contact_info r). body2_name p = []"
  shows "kept_body2_name r i = []"
  using assms by (simp add: kept_body2_name_def)

lemma reachable_body2_name_clear:
  assumes "reachable r"
  shows "\<forall>p \<in> set (point_pair_contact_info r). body2_name p = []"
  using assms
proof (induction rule: reachable.induct)
  case fresh
  show ?case by (simp add: default_results_def)
next
  case (step r strict ctx q msg)
  from step.hyps(2) obtain surfaces points ts where
    msg: "msg = results_record ts q surfaces points r"
    by (rule CalcContactResults_SomeD)
  show ?case
    using kept_body2_name_clear [OF step.IH]
    by (auto simp: msg results_record_def pair_record_def)
qed

lemma results_record_kept_cong:
  assumes "\<And>i. kept_body2_name r i = kept_body2_name r' i"
  shows "results_record ts q surfaces points r = results_record ts q surfaces points r'"
  by (simp add: results_record_def assms)

text \<open>The evaluation returns a message on every well-formed snapshot: the query succeeds,
  the time in microseconds fits \<^verbatim>\<open>int64_t\<close>, the numbers of surfaces, pairs and faces
  fit \<^verbatim>\<open>int\<close>, every face refers to existing vertices and field values, and both bodies
  of every pair have a name.\<close>

lemma CalcContactResults_succeeds:
  assumes "compute_contacts strict q = Some (surfaces, points)"
    and "double_to_int64 (fmul (get_time ctx) (dbl 1000000)) = Some ts"
    and "length surfaces < 2 ^ 31" and "length points < 2 ^ 31"
    and "\<And>s. s \<in> set surfaces \<Longrightarrow> length (mesh_triangles (mesh_W s)) < 2 ^ 31"
    and "\<And>s j. s \<in> set surfaces \<Longrightarrow> j < length (mesh_triangles (mesh_W s))
           \<Longrightarrow> face_ok (mesh_W s) (e_MN s) j"
    and "\<And>p. p \<in> set points \<Longrightarrow> pair_ok q p"
  shows "CalcContactResults strict ctx q r = Some (results_record ts q surfaces points r)"
proof -
  have "surface_ok s" if "s \<in> set surfaces" for s
    using assms(5) [OF that] assms(6) [OF that]
    by (simp add: surface_ok_def mesh_num_triangles_def static_cast_int_small list_all_iff)
  then have "contacts_ok q surfaces points"
    using assms(3,4,7)
    by (simp add: contacts_ok_def static_cast_int_small list_all_iff)
  then show ?thesis
    by (simp add: CalcContactResults_closed assms(1,2))
qed

subsection \<open>Evaluation of the concrete snapshots\<close>

lemma to_string_7: "to_string 7 = ''7''"
  by (simp add: to_string.simps)

lemma to_string_12: "to_string 12 = ''12''"
  by (simp add: to_string.simps)

lemma scenario_surface_ok: "surface_ok scenario_B_surface"
  by (simp add: surface_ok_def scenario_B_surface_def scenario_B_mesh_def mesh_num_triangles_def
    static_cast_int_small face_ok_def)

lemma scenario_surface_record:
  "surface_record scenario_B_surface = hd (hydroelastic_contacts scenario_results)"
  by (simp add: surface_record_def scenario_B_surface_def scenario_B_mesh_def
      mesh_num_triangles_def static_cast_int_small tri_record_def quad_record_def to_string_7
      to_string_12 scenario_B_quadrature scenario_results_def)

lemma scenario_timestamp:
  "double_to_int64 (fmul (get_time scenario_context) (dbl 1000000)) = Some 1500000"
  by (simp add: scenario_context_def time_scenario)

lemma tiny_timestamp:
  "double_to_int64 (fmul (dbl (1 / 1048576)) (dbl 1000000)) = Some 0"
  by (simp add: time_tiny)

lemma scenario_run:
  "CalcContactResults False scenario_context scenario_query default_results
     = Some scenario_results"
  by (simp add: CalcContactResults_closed compute_contacts_def scenario_query_def
      scenario_timestamp contacts_ok_def static_cast_int_small
      scenario_surface_ok pair_ok_def scenario_C_pair_def scenario_names_def results_record_def
      pair_record_def kept_body2_name_def default_results_def scenario_C_midpoint
      scenario_surface_record)
     (simp add: scenario_results_def)

lemma empty_run:
  "CalcContactResults strict \<lparr>get_time = dbl (1 / 1048576)\<rparr> empty_query r
     = Some (empty_results 0)"
  by (simp add: CalcContactResults_closed compute_contacts_def empty_query_def
      tiny_timestamp contacts_ok_def static_cast_int_small results_record_def
      empty_results_def)

lemma strict_run:
  "CalcContactResults True scenario_context scenario_query default_results = Some strict_results"
  by (simp add: CalcContactResults_closed compute_contacts_def scenario_query_def
      scenario_timestamp contacts_ok_def static_cast_int_small
      scenario_surface_ok results_record_def scenario_surface_record strict_results_def)
     (simp add: scenario_results_def)

lemma scenario_pair_run:
  "encode_point_pair 1500000 scenario_query scenario_C_pair stale_info = Some scenario_info"
  by (simp add: encode_point_pair_def scenario_query_def scenario_C_pair_def scenario_names_def
      stale_info_def default_info_def scenario_info_def scenario_C_midpoint)

lemma static_cast_int_wraps: "static_cast_int 4294967296 = 0"
  by (simp add: static_cast_int_def)

lemma oversized_run:
  "CalcContactResults True \<lparr>get_time = dbl (1 / 1048576)\<rparr> oversized_query default_results
     = Some (empty_results 0)"
  by (simp add: CalcContactResults_closed compute_contacts_def oversized_query_def
      tiny_timestamp contacts_ok_def static_cast_int_wraps static_cast_int_small
      results_record_def empty_results_def)

lemma run_03:
  "CalcContactResults strict \<lparr>get_time = dbl (3 / 10)\<rparr> empty_query r
     = Some (empty_results 300000)"
  by (simp add: CalcContactResults_closed compute_contacts_def empty_query_def
      time_03 contacts_ok_def static_cast_int_small results_record_def
      empty_results_def)

lemma rounding_run:
  "CalcContactResults True scenario_context rounding_query default_results
     = Some rounding_results"
proof -
  have ok: "surface_ok rounding_surface"
    by (simp add: surface_ok_def rounding_surface_def mesh_num_triangles_def
        static_cast_int_small face_ok_def)
  have rec: "surface_record rounding_surface = hd (hydroelastic_contacts rounding_results)"
    by (simp add: surface_record_def rounding_surface_def mesh_num_triangles_def
        static_cast_int_small tri_record_def quad_record_def to_string_7 to_string_12
        rounding_quadrature rounding_results_def)
  show ?thesis
    by (simp add: CalcContactResults_closed compute_contacts_def rounding_query_def
        scenario_timestamp contacts_ok_def static_cast_int_small ok results_record_def rec)
       (simp add: rounding_results_def)
qed

lemma extreme_run:
  "CalcContactResults False scenario_context extreme_query default_results
     = Some extreme_results"
proof -
  have a: "pair_record 1500000 extreme_query half_ulp_pair []
             = point_pair_contact_info extreme_results ! 0"
    by (simp add: pair_record_def half_ulp_pair_def extreme_query_def scenario_names_def
        half_ulp_midpoint extreme_results_def)
  have b: "pair_record 1500000 extreme_query overflow_pair []
             = point_pair_contact_info extreme_results ! 1"
    by (simp only: pair_record_def overflow_pair_def PenetrationAsPointPair.simps
        overflow_midpoint)
       (simp add: extreme_query_def scenario_names_def extreme_results_def)
  have ok: "pair_ok extreme_query half_ulp_pair" "pair_ok extreme_query overflow_pair"
    by (simp_all add: pair_ok_def half_ulp_pair_def overflow_pair_def extreme_query_def
        scenario_names_def)
  have cc: "compute_contacts False extreme_query = Some ([], [half_ulp_pair, overflow_pair])"
    by (simp add: compute_contacts_def extreme_query_def)
  have upt2: "[0..<2] = [0, Suc 0]"
    by (simp add: upt_rec)
  show ?thesis
    by (simp add: CalcContactResults_closed cc scenario_timestamp contacts_ok_def
        static_cast_int_small ok results_record_def kept_body2_name_def default_results_def
        upt2 a b)
       (simp add: extreme_results_def)
qed

lemma oversized_pairs_run:
  "CalcContactResults False \<lparr>get_time = dbl (1 / 1048576)\<rparr> oversized_pairs_query
     default_results = Some (empty_results 0)"
  by (simp add: CalcContactResults_closed compute_contacts_def oversized_pairs_query_def
      tiny_timestamp contacts_ok_def static_cast_int_wraps static_cast_int_small
      results_record_def empty_results_def)

section \<open>The claims\<close>

subsection \<open>Names of the two bodies of a point pair\<close>

text \<open>
  Claim C1 asks that \<^verbatim>\<open>body1_name\<close> receives the name of the pair's first body
  (\<^verbatim>\<open>id_A\<close>) and \<^verbatim>\<open>body2_name\<close> the name of its second body (\<^verbatim>\<open>id_B\<close>), so that two
  distinct bodies give two distinct names. The code looks both names up but assigns both
  to \<^verbatim>\<open>body1_name\<close> (source lines 298 and 299). On the pair of Scenario C, between
  the bodies named \<open>can1\<close> and \<open>can2\<close>, the message holds \<open>can2\<close> in \<^verbatim>\<open>body1_name\<close>
  and the empty string in \<^verbatim>\<open>body2_name\<close>: the name of the first body is lost.
\<close>

theorem point_pair_names_share_one_field:
  "GetName scenario_query (id_A scenario_C_pair) = Some ''can1'' \<and>
   GetName scenario_query (id_B scenario_C_pair) = Some ''can2'' \<and>
   map_option (\<lambda>msg. map (\<lambda>p. (body1_name p, body2_name p)) (point_pair_contact_info msg))
     (CalcContactResults False scenario_context scenario_query default_results)
     = Some [(''can2'', [])]"
  by (simp add: scenario_run)
     (simp add: scenario_results_def scenario_query_def scenario_C_pair_def scenario_names_def)

subsection \<open>The timestamp\<close>

text \<open>
  Claim C2, as amended: for every non-negative simulation time \<open>t\<close> for which the
  conversion to \<^verbatim>\<open>int64_t\<close> is defined, the timestamp is the integer part of the binary64
  product \<^verbatim>\<open>t * 1e6\<close>: the exact product \<open>t * 1000000\<close> is rounded to the nearest binary64
  value \<open>p\<close> by the multiplication, and the conversion then discards the fractional part
  of \<open>p\<close>, so the timestamp is \<open>\<lfloor>p\<rfloor>\<close>. Nothing rounds \<open>p\<close> to the nearest integer. The
  conversion is defined when \<open>p\<close> is finite and below \<open>2 ^ 63\<close>; elsewhere its behaviour is
  undefined and nothing is stated. The witness has the time \<^verbatim>\<open>0.3\<close>, where the product
  rounds up to \<open>300000\<close> although the exact product of the binary64 value \<^verbatim>\<open>0.3\<close> has
  the integer part \<open>299999\<close>, and the time \<open>1 / 1048576\<close>.
\<close>

theorem timestamp_truncates:
  assumes "CalcContactResults strict ctx q r = Some msg"
    and "get_time ctx = Finite t" and "0 \<le> t"
  shows "\<exists>p. round_binary64 (t * 1000000) = Finite p \<and> p < 2 ^ 63 \<and> timestamp msg = \<lfloor>p\<rfloor>"
proof -
  from assms(1) obtain surfaces points ts where
    ts: "double_to_int64 (fmul (get_time ctx) (dbl 1000000)) = Some ts"
    and msg: "msg = results_record ts q surfaces points r"
    by (rule CalcContactResults_SomeD)
  have prod: "fmul (get_time ctx) (dbl 1000000) = round_binary64 (t * 1000000)"
    by (simp add: assms(2) dbl_values)
  with ts obtain p where p: "round_binary64 (t * 1000000) = Finite p"
    by (cases "round_binary64 (t * 1000000)") simp_all
  have nn: "0 \<le> p"
  proof (rule round_binary64_nonneg [OF _ p])
    show "0 \<le> t * 1000000" using assms(3) by simp
  qed
  from ts have "double_to_int64 (Finite p) = Some ts"
    by (simp only: prod p)
  with nn have "(if - (2 ^ 63) \<le> \<lfloor>p\<rfloor> \<and> \<lfloor>p\<rfloor> < 2 ^ 63 then Some \<lfloor>p\<rfloor> else None) = Some ts"
    by (simp add: Let_def)
  then have k: "ts = \<lfloor>p\<rfloor>" and lt: "\<lfloor>p\<rfloor> < 2 ^ 63"
    by (simp_all split: if_splits)
  have "timestamp msg = ts"
    by (simp add: msg results_record_def)
  moreover from lt have "p < 2 ^ 63"
    by (simp add: floor_less_iff)
  ultimately show ?thesis using p k by blast
qed

theorem timestamp_truncates_witness:
  "get_time \<lparr>get_time = dbl (3 / 10)\<rparr> = Finite (5404319552844595 / 18014398509481984)
   \<and> (0::real) \<le> 5404319552844595 / 18014398509481984
   \<and> CalcContactResults True \<lparr>get_time = dbl (3 / 10)\<rparr> empty_query default_results
        = Some (empty_results 300000)
   \<and> round_binary64 (5404319552844595 / 18014398509481984 * 1000000) = Finite 300000
   \<and> timestamp (empty_results 300000) = \<lfloor>300000 :: real\<rfloor>
   \<and> \<lfloor>5404319552844595 / 18014398509481984 * 1000000 :: real\<rfloor> = 299999
   \<and> get_time \<lparr>get_time = dbl (1 / 1048576)\<rparr> = Finite (1 / 1048576)
   \<and> CalcContactResults True \<lparr>get_time = dbl (1 / 1048576)\<rparr> empty_query default_results
        = Some (empty_results 0)
   \<and> round_binary64 (1 / 1048576 * 1000000) = Finite (15625 / 16384)
   \<and> timestamp (empty_results 0) = \<lfloor>15625 / 16384 :: real\<rfloor>"
proof -
  have t1: "get_time \<lparr>get_time = dbl (3 / 10)\<rparr> = Finite (5404319552844595 / 18014398509481984)"
    by (simp add: dbl_def round_binary64_values)
  have nn: "(0::real) \<le> 5404319552844595 / 18014398509481984"
    by simp
  have p1: "round_binary64 (5404319552844595 / 18014398509481984 * 1000000) = Finite 300000"
    using time_03 by (simp add: dbl_def round_binary64_values)
  have fl: "\<lfloor>5404319552844595 / 18014398509481984 * 1000000 :: real\<rfloor> = 299999"
    by simp
  have t2: "get_time \<lparr>get_time = dbl (1 / 1048576)\<rparr> = Finite (1 / 1048576)"
    by (simp add: dbl_def round_binary64_values)
  have p2: "round_binary64 (1 / 1048576 * 1000000) = Finite (15625 / 16384)"
    by (simp add: round_binary64_values)
  have r1: "CalcContactResults True \<lparr>get_time = dbl (3 / 10)\<rparr> empty_query default_results
        = Some (empty_results 300000)"
    by (rule run_03)
  have r2: "CalcContactResults True \<lparr>get_time = dbl (1 / 1048576)\<rparr> empty_query default_results
        = Some (empty_results 0)"
    by (rule empty_run)
  from timestamp_truncates [OF r1 t1 nn] obtain p
    where "round_binary64 (5404319552844595 / 18014398509481984 * 1000000) = Finite p"
      and ts: "timestamp (empty_results 300000) = \<lfloor>p\<rfloor>"
    by blast
  with p1 have "p = 300000" by (simp only: double.inject)
  with ts have a: "timestamp (empty_results 300000) = \<lfloor>300000 :: real\<rfloor>"
    by (simp only:)
  from timestamp_truncates [OF r2 t2] obtain p'
    where "round_binary64 (1 / 1048576 * 1000000) = Finite p'"
      and ts': "timestamp (empty_results 0) = \<lfloor>p'\<rfloor>"
    by auto
  with p2 have "p' = 15625 / 16384" by (simp only: double.inject)
  with ts' have b: "timestamp (empty_results 0) = \<lfloor>15625 / 16384 :: real\<rfloor>"
    by (simp only:)
  show ?thesis
    by (intro conjI t1 nn r1 p1 a fl t2 r2 p2 b)
qed

text \<open>
  The claim as stated fails at the simulation time \<open>1 / 1048576\<close> seconds (two to the
  power \<open>-20\<close>, a binary64 value whose product with one million is the binary64 value
  \<open>0.95367431640625\<close>): the message carries the timestamp 0, and rounding to the
  nearest microsecond gives 1.
\<close>

theorem timestamp_not_rounded:
  "get_time \<lparr>get_time = dbl (1 / 1048576)\<rparr> = Finite (1 / 1048576)
   \<and> map_option timestamp
     (CalcContactResults True \<lparr>get_time = dbl (1 / 1048576)\<rparr> empty_query default_results)
       = Some 0
   \<and> round (1 / 1048576 * 1000000 :: real) = 1"
proof -
  have a: "get_time \<lparr>get_time = dbl (1 / 1048576)\<rparr> = Finite (1 / 1048576)"
    by (simp add: dbl_def round_binary64_values)
  have b: "map_option timestamp
     (CalcContactResults True \<lparr>get_time = dbl (1 / 1048576)\<rparr> empty_query default_results)
       = Some 0"
    by (simp only: empty_run) (simp add: empty_results_def)
  have c: "round (1 / 1048576 * 1000000 :: real) = 1"
    by (simp add: round_def)
  show ?thesis
    by (intro conjI a b c)
qed

subsection \<open>Counts and lengths\<close>

text \<open>
  Claim C3: in every message the code produces, each declared count equals the length
  of its sequence. In each surface message \<^verbatim>\<open>num_triangles\<close>, the length of
  \<^verbatim>\<open>triangles\<close>, the length of \<^verbatim>\<open>quadrature_point_data\<close> and
  \<^verbatim>\<open>num_quadrature_points\<close> agree; in the message \<^verbatim>\<open>num_hydroelastic_contacts\<close> is the
  length of \<^verbatim>\<open>hydroelastic_contacts\<close> and \<^verbatim>\<open>num_point_pair_contacts\<close> the length of
  \<^verbatim>\<open>point_pair_contact_info\<close>. When the query reports no contact, both counts are 0
  and both sequences are empty.
\<close>

theorem counts_match_lengths:
  assumes "CalcContactResults strict ctx q r = Some msg"
  shows "num_hydroelastic_contacts msg = int (length (hydroelastic_contacts msg)) \<and>
         num_point_pair_contacts msg = int (length (point_pair_contact_info msg)) \<and>
         (\<forall>s \<in> set (hydroelastic_contacts msg).
            num_triangles s = int (length (triangles s)) \<and>
            num_triangles s = int (length (quadrature_point_data s)) \<and>
            num_quadrature_points s = num_triangles s) \<and>
         (compute_contacts strict q = Some ([], []) \<longrightarrow>
            num_hydroelastic_contacts msg = 0 \<and> hydroelastic_contacts msg = [] \<and>
            num_point_pair_contacts msg = 0 \<and> point_pair_contact_info msg = [])"
proof -
  from assms obtain surfaces points ts where
    cc: "compute_contacts strict q = Some (surfaces, points)"
    and ok: "contacts_ok q surfaces points"
    and msg: "msg = results_record ts q surfaces points r"
    by (rule CalcContactResults_SomeD)
  note okD = contacts_okD [OF ok]
  have 1: "num_hydroelastic_contacts msg = int (length (hydroelastic_contacts msg))"
    using okD(1) by (simp add: msg results_record_def)
  have 2: "num_point_pair_contacts msg = int (length (point_pair_contact_info msg))"
    using okD(2) by (simp add: msg results_record_def)
  have 3: "num_triangles s = int (length (triangles s)) \<and>
           num_triangles s = int (length (quadrature_point_data s)) \<and>
           num_quadrature_points s = num_triangles s"
    if "s \<in> set (hydroelastic_contacts msg)" for s
  proof -
    from that obtain i where i: "i < nat (static_cast_int (length surfaces))"
      and s: "s = surface_record (surfaces ! i)"
      by (auto simp: msg results_record_def)
    show ?thesis
      unfolding s using surface_record_counts [OF okD(3) [OF i]] by simp
  qed
  have 4: "num_hydroelastic_contacts msg = 0 \<and> hydroelastic_contacts msg = [] \<and>
           num_point_pair_contacts msg = 0 \<and> point_pair_contact_info msg = []"
    if "compute_contacts strict q = Some ([], [])"
    using that cc by (simp add: msg results_record_def static_cast_int_small)
  from 1 2 3 4 show ?thesis by blast
qed

theorem counts_match_lengths_witness:
  "CalcContactResults False scenario_context scenario_query default_results = Some scenario_results
   \<and> num_hydroelastic_contacts scenario_results = 1
   \<and> length (hydroelastic_contacts scenario_results) = 1
   \<and> num_point_pair_contacts scenario_results = 1
   \<and> length (point_pair_contact_info scenario_results) = 1
   \<and> hydroelastic_contacts scenario_results ! 0 \<in> set (hydroelastic_contacts scenario_results)
   \<and> num_triangles (hydroelastic_contacts scenario_results ! 0) = 1
   \<and> length (triangles (hydroelastic_contacts scenario_results ! 0)) = 1
   \<and> length (quadrature_point_data (hydroelastic_contacts scenario_results ! 0)) = 1
   \<and> num_quadrature_points (hydroelastic_contacts scenario_results ! 0) = 1
   \<and> CalcContactResults True \<lparr>get_time = dbl (1 / 1048576)\<rparr> empty_query default_results
        = Some (empty_results 0)
   \<and> compute_contacts True empty_query = Some ([], [])
   \<and> num_hydroelastic_contacts (empty_results 0) = 0
   \<and> hydroelastic_contacts (empty_results 0) = []
   \<and> num_point_pair_contacts (empty_results 0) = 0
   \<and> point_pair_contact_info (empty_results 0) = []"
proof -
  note A = counts_match_lengths [OF scenario_run]
  note B = counts_match_lengths [OF empty_run [of True default_results]]
  have cc: "compute_contacts True empty_query = Some ([], [])"
    by (simp add: compute_contacts_def empty_query_def)
  have lens: "length (hydroelastic_contacts scenario_results) = 1"
    "length (point_pair_contact_info scenario_results) = 1"
    "length (triangles (hydroelastic_contacts scenario_results ! 0)) = 1"
    by (simp_all add: scenario_results_def)
  have mem: "hydroelastic_contacts scenario_results ! 0
               \<in> set (hydroelastic_contacts scenario_results)"
    by (simp add: scenario_results_def)
  have counts: "num_hydroelastic_contacts scenario_results = 1"
    "num_point_pair_contacts scenario_results = 1"
    using A lens by simp_all
  have surf: "num_triangles (hydroelastic_contacts scenario_results ! 0) = 1"
    "length (quadrature_point_data (hydroelastic_contacts scenario_results ! 0)) = 1"
    "num_quadrature_points (hydroelastic_contacts scenario_results ! 0) = 1"
    using A mem lens(3) by auto
  have none: "num_hydroelastic_contacts (empty_results 0) = 0"
    "hydroelastic_contacts (empty_results 0) = []"
    "num_point_pair_contacts (empty_results 0) = 0"
    "point_pair_contact_info (empty_results 0) = []"
    using B cc by simp_all
  from scenario_run counts lens mem surf empty_run [of True default_results] cc none
  show ?thesis by simp
qed

subsection \<open>Triangles of a contact surface\<close>

text \<open>
  Claim C4, as amended: for every surface \<open>i\<close> of the query result and every face \<open>j\<close> of
  its mesh, the numbers of surfaces and of faces being representable as \<^verbatim>\<open>int\<close>, the
  message has one surface message per surface and in it one triangle and one quadrature
  point per face, in the order of the mesh. The triangle at position \<open>j\<close> holds the three
  vertices face \<open>j\<close> refers to, verbatim, as \<^verbatim>\<open>p_WA\<close>, \<^verbatim>\<open>p_WB\<close>, \<^verbatim>\<open>p_WC\<close>, and the pressure
  field at these three vertex indices as \<^verbatim>\<open>pressure_A\<close>, \<^verbatim>\<open>pressure_B\<close>, \<^verbatim>\<open>pressure_C\<close>.
  The quadrature point \<^verbatim>\<open>p_WQ\<close> at position \<open>j\<close> is the binary64 evaluation of
  \<^verbatim>\<open>(vA + vB + vC) / 3.0\<close>, component by component: the two sums and the quotient are
  each rounded to the nearest binary64 value, so it is the arithmetic mean of the three
  vertices up to these roundings and not always the binary64 value nearest to it. A
  message is produced only when every face refers to existing vertices and field values.
  For Scenario B the triangle holds the vertices and the pressures 10, 20, 30, and
  \<^verbatim>\<open>p_WQ\<close> is \<open>(x, x, 0)\<close> with \<open>x\<close> the binary64 value nearest to \<open>1 / 3\<close>.
\<close>

theorem triangles_follow_faces:
  assumes "CalcContactResults strict ctx q r = Some msg"
    and "compute_contacts strict q = Some (surfaces, points)"
    and "length surfaces < 2 ^ 31"
    and "i < length surfaces"
    and "length (mesh_triangles (mesh_W (surfaces ! i))) < 2 ^ 31"
    and "j < length (mesh_triangles (mesh_W (surfaces ! i)))"
  shows "let mesh = mesh_W (surfaces ! i);
             field = e_MN (surfaces ! i);
             face = mesh_triangles mesh ! j;
             vA = mesh_vertices mesh ! face_vertex face 0;
             vB = mesh_vertices mesh ! face_vertex face 1;
             vC = mesh_vertices mesh ! face_vertex face 2;
             surface_msg = hydroelastic_contacts msg ! i
         in length (hydroelastic_contacts msg) = length surfaces \<and>
            length (triangles surface_msg) = length (mesh_triangles mesh) \<and>
            length (quadrature_point_data surface_msg) = length (mesh_triangles mesh) \<and>
            (\<forall>k \<in> {0, 1, 2}. face_vertex face k < length (mesh_vertices mesh) \<and>
                              face_vertex face k < length field) \<and>
            triangles surface_msg ! j =
              \<lparr>p_WA = vA, p_WB = vB, p_WC = vC,
               pressure_A = field ! face_vertex face 0,
               pressure_B = field ! face_vertex face 1,
               pressure_C = field ! face_vertex face 2\<rparr> \<and>
            p_WQ (quadrature_point_data surface_msg ! j)
              = vec_div (vec_add (vec_add vA vB) vC) (dbl 3)"
proof -
  from assms(1) obtain surfaces' points' ts where
    cc: "compute_contacts strict q = Some (surfaces', points')"
    and ok: "contacts_ok q surfaces' points'"
    and msg': "msg = results_record ts q surfaces' points' r"
    by (rule CalcContactResults_SomeD)
  from cc assms(2) have "surfaces' = surfaces" "points' = points" by simp_all
  with ok msg' have ok: "contacts_ok q surfaces points"
    and msg: "msg = results_record ts q surfaces points r" by simp_all
  define mesh where "mesh = mesh_W (surfaces ! i)"
  define field where "field = e_MN (surfaces ! i)"
  have ns: "static_cast_int (length surfaces) = int (length surfaces)"
    using assms(3) by (rule static_cast_int_small)
  have nt: "mesh_num_triangles mesh = int (length (mesh_triangles mesh))"
    using assms(5) by (simp add: mesh_num_triangles_def static_cast_int_small mesh_def)
  have i: "i < nat (static_cast_int (length surfaces))"
    using assms(4) by (simp add: ns)
  have sm: "hydroelastic_contacts msg ! i = surface_record (surfaces ! i)"
    unfolding msg by (rule results_record_nth_surface [OF i])
  have "surface_ok (surfaces ! i)"
    by (rule contacts_okD(3) [OF ok i])
  then have fo: "face_ok mesh field j"
    using assms(6) nt by (simp add: surface_ok_def list_all_iff mesh_def field_def)
  have len: "length (hydroelastic_contacts msg) = length surfaces"
    by (simp add: msg results_record_lengths ns)
  have jl: "j < length (mesh_triangles mesh)"
    using assms(6) by (simp add: mesh_def)
  show ?thesis
    using jl fo len nt
    by (simp add: Let_def sm surface_record_def tri_record_def quad_record_def face_ok_def
        flip: mesh_def field_def)
qed

theorem triangles_follow_faces_witness:
  "CalcContactResults False scenario_context scenario_query default_results = Some scenario_results
   \<and> compute_contacts False scenario_query = Some ([scenario_B_surface], [scenario_C_pair])
   \<and> length [scenario_B_surface] < 2 ^ 31
   \<and> (0::nat) < length [scenario_B_surface]
   \<and> length (mesh_triangles (mesh_W ([scenario_B_surface] ! 0))) < 2 ^ 31
   \<and> (0::nat) < length (mesh_triangles (mesh_W ([scenario_B_surface] ! 0)))
   \<and> mesh_vertices (mesh_W scenario_B_surface)
        = [(dbl 0, dbl 0, dbl 0), (dbl 1, dbl 0, dbl 0), (dbl 0, dbl 1, dbl 0)]
   \<and> mesh_triangles (mesh_W scenario_B_surface) = [(0, 1, 2)]
   \<and> e_MN scenario_B_surface = [dbl 10, dbl 20, dbl 30]
   \<and> length (hydroelastic_contacts scenario_results) = 1
   \<and> length (triangles (hydroelastic_contacts scenario_results ! 0)) = 1
   \<and> length (quadrature_point_data (hydroelastic_contacts scenario_results ! 0)) = 1
   \<and> triangles (hydroelastic_contacts scenario_results ! 0) ! 0 =
        \<lparr>p_WA = (dbl 0, dbl 0, dbl 0), p_WB = (dbl 1, dbl 0, dbl 0),
         p_WC = (dbl 0, dbl 1, dbl 0),
         pressure_A = dbl 10, pressure_B = dbl 20, pressure_C = dbl 30\<rparr>
   \<and> p_WQ (quadrature_point_data (hydroelastic_contacts scenario_results ! 0) ! 0)
        = (dbl (1 / 3), dbl (1 / 3), dbl 0)
   \<and> dbl (1 / 3) = Finite (6004799503160661 / 18014398509481984)"
proof -
  have cc: "compute_contacts False scenario_query = Some ([scenario_B_surface], [scenario_C_pair])"
    by (simp add: compute_contacts_def scenario_query_def)
  have m: "mesh_W scenario_B_surface = scenario_B_mesh"
    "e_MN scenario_B_surface = [dbl 10, dbl 20, dbl 30]"
    by (simp_all add: scenario_B_surface_def)
  have mesh: "mesh_vertices scenario_B_mesh
                = [(dbl 0, dbl 0, dbl 0), (dbl 1, dbl 0, dbl 0), (dbl 0, dbl 1, dbl 0)]"
    "mesh_triangles scenario_B_mesh = [(0, 1, 2)]"
    by (simp_all add: scenario_B_mesh_def)
  have h: "length [scenario_B_surface] < 2 ^ 31" "(0::nat) < length [scenario_B_surface]"
    "length (mesh_triangles (mesh_W ([scenario_B_surface] ! 0))) < 2 ^ 31"
    "(0::nat) < length (mesh_triangles (mesh_W ([scenario_B_surface] ! 0)))"
    by (simp_all add: m mesh)
  note T = triangles_follow_faces [OF scenario_run cc h]
  have lens: "length (hydroelastic_contacts scenario_results) = 1"
    "length (triangles (hydroelastic_contacts scenario_results ! 0)) = 1"
    "length (quadrature_point_data (hydroelastic_contacts scenario_results ! 0)) = 1"
    and tri: "triangles (hydroelastic_contacts scenario_results ! 0) ! 0 =
        \<lparr>p_WA = (dbl 0, dbl 0, dbl 0), p_WB = (dbl 1, dbl 0, dbl 0),
         p_WC = (dbl 0, dbl 1, dbl 0),
         pressure_A = dbl 10, pressure_B = dbl 20, pressure_C = dbl 30\<rparr>"
    and quad: "p_WQ (quadrature_point_data (hydroelastic_contacts scenario_results ! 0) ! 0)
        = (dbl (1 / 3), dbl (1 / 3), dbl 0)"
    using T by (simp_all add: Let_def m mesh scenario_B_quadrature)
  have third: "dbl (1 / 3) = Finite (6004799503160661 / 18014398509481984)"
    by (simp add: dbl_def round_binary64_eqI [where e = "- 2"] round_half_even_def)
  show ?thesis
    by (intro conjI scenario_run cc h lens tri quad third)
       (simp_all add: m mesh)
qed

text \<open>
  The claim as stated fails on a triangle with the vertices \<open>(1, 0, 0)\<close>, \<open>(1, 0, 0)\<close> and
  \<open>(2 ^ -52, 0, 0)\<close>: the arithmetic mean of the three first components is the binary64
  value \<open>6004799503160662 / 2 ^ 53\<close>, and the code, whose sum \<open>2 + 2 ^ -52\<close> rounds to
  \<open>2\<close>, stores \<open>6004799503160661 / 2 ^ 53\<close>. On Scenario B itself the two first
  components of \<^verbatim>\<open>p_WQ\<close> are the binary64 value \<open>6004799503160661 / 2 ^ 54\<close>, which is
  not \<open>1 / 3\<close>.
\<close>

theorem quadrature_point_not_exact_mean:
  "CalcContactResults True scenario_context rounding_query default_results
     = Some rounding_results
   \<and> ComputeContactSurfaces rounding_query = Some [rounding_surface]
   \<and> mesh_triangles (mesh_W rounding_surface) = [(0, 1, 2)]
   \<and> mesh_vertices (mesh_W rounding_surface)
        = [(Finite 1, Finite 0, Finite 0), (Finite 1, Finite 0, Finite 0),
           (Finite (1 / 4503599627370496), Finite 0, Finite 0)]
   \<and> p_WQ (quadrature_point_data (hydroelastic_contacts rounding_results ! 0) ! 0)
        = (Finite (6004799503160661 / 9007199254740992), Finite 0, Finite 0)
   \<and> (1 + 1 + 1 / 4503599627370496) / 3 = (6004799503160662 / 9007199254740992 :: real)
   \<and> is_binary64 (6004799503160662 / 9007199254740992)
   \<and> CalcContactResults False scenario_context scenario_query default_results
        = Some scenario_results
   \<and> p_WQ (quadrature_point_data (hydroelastic_contacts scenario_results ! 0) ! 0)
        = (Finite (6004799503160661 / 18014398509481984),
           Finite (6004799503160661 / 18014398509481984), Finite 0)
   \<and> 6004799503160661 / 18014398509481984 \<noteq> (1 / 3 :: real)"
proof -
  have a: "ComputeContactSurfaces rounding_query = Some [rounding_surface]"
    by (simp add: rounding_query_def)
  have b: "mesh_triangles (mesh_W rounding_surface) = [(0, 1, 2)]"
    "mesh_vertices (mesh_W rounding_surface)
        = [(Finite 1, Finite 0, Finite 0), (Finite 1, Finite 0, Finite 0),
           (Finite (1 / 4503599627370496), Finite 0, Finite 0)]"
    by (simp_all add: rounding_surface_def)
  have c: "p_WQ (quadrature_point_data (hydroelastic_contacts rounding_results ! 0) ! 0)
        = (Finite (6004799503160661 / 9007199254740992), Finite 0, Finite 0)"
    by (simp add: rounding_results_def)
  have d: "(1 + 1 + 1 / 4503599627370496) / 3 = (6004799503160662 / 9007199254740992 :: real)"
    by simp
  have e: "is_binary64 (6004799503160662 / 9007199254740992)"
    by (rule is_binary64_fraction [where m = 6004799503160662 and n = 53]) simp_all
  have third: "dbl (1 / 3) = Finite (6004799503160661 / 18014398509481984)"
    by (simp add: dbl_def round_binary64_eqI [where e = "- 2"] round_half_even_def)
  have f: "p_WQ (quadrature_point_data (hydroelastic_contacts scenario_results ! 0) ! 0)
        = (Finite (6004799503160661 / 18014398509481984),
           Finite (6004799503160661 / 18014398509481984), Finite 0)"
    by (simp add: scenario_results_def third dbl_values)
  have g: "6004799503160661 / 18014398509481984 \<noteq> (1 / 3 :: real)"
    by simp
  show ?thesis
    by (intro conjI rounding_run a b c d e scenario_run f g)
qed

subsection \<open>Fields of a point pair record\<close>

text \<open>
  Claim C5, as amended: for every point pair \<open>i\<close> of the query result, the number of pairs
  being representable as \<^verbatim>\<open>int\<close>, the message has one record per pair, and the record at
  position \<open>i\<close> has the timestamp of the message, the normal \<^verbatim>\<open>nhat_BA_W\<close> of the pair as
  both its contact force and its normal, and as its contact point the binary64
  evaluation of \<^verbatim>\<open>(p_WCa + p_WCb) / 2.0\<close>, component by component: the sum of the two
  near-points is rounded to the nearest binary64 value, an infinity when it overflows,
  and then halved. This is the midpoint of the two near-points up to that rounding and
  short of that overflow. For Scenario C the contact point is \<open>(0, 0, 0.9)\<close> and the
  contact force and the normal are \<open>(0, 0, 1)\<close>, as binary64 values.
\<close>

theorem point_pair_record_fields:
  assumes "CalcContactResults strict ctx q r = Some msg"
    and "compute_contacts strict q = Some (surfaces, points)"
    and "length points < 2 ^ 31"
    and "i < length points"
  shows "length (point_pair_contact_info msg) = length points \<and>
         pp_timestamp (point_pair_contact_info msg ! i) = timestamp msg \<and>
         contact_point (point_pair_contact_info msg ! i)
           = vec_div (vec_add (p_WCa (points ! i)) (p_WCb (points ! i))) (dbl 2) \<and>
         contact_force (point_pair_contact_info msg ! i) = nhat_BA_W (points ! i) \<and>
         normal (point_pair_contact_info msg ! i) = nhat_BA_W (points ! i)"
proof -
  from assms(1) obtain surfaces' points' ts where
    cc: "compute_contacts strict q = Some (surfaces', points')"
    and msg': "msg = results_record ts q surfaces' points' r"
    by (rule CalcContactResults_SomeD)
  from cc assms(2) have "surfaces' = surfaces" "points' = points" by simp_all
  with msg' have msg: "msg = results_record ts q surfaces points r" by simp
  have np: "static_cast_int (length points) = int (length points)"
    using assms(3) by (rule static_cast_int_small)
  have i: "i < nat (static_cast_int (length points))"
    using assms(4) by (simp add: np)
  have nth: "point_pair_contact_info msg ! i
               = pair_record ts q (points ! i) (kept_body2_name r i)"
    unfolding msg by (rule results_record_nth_pair [OF i])
  have "timestamp msg = ts"
    by (simp add: msg results_record_def)
  moreover have "length (point_pair_contact_info msg) = length points"
    by (simp add: msg results_record_lengths np)
  ultimately show ?thesis
    by (simp add: nth pair_record_def)
qed

theorem point_pair_record_fields_witness:
  "CalcContactResults False scenario_context scenario_query default_results = Some scenario_results
   \<and> compute_contacts False scenario_query = Some ([scenario_B_surface], [scenario_C_pair])
   \<and> length [scenario_C_pair] < 2 ^ 31
   \<and> (0::nat) < length [scenario_C_pair]
   \<and> p_WCa scenario_C_pair = (dbl 0, dbl 0, dbl 1)
   \<and> p_WCb scenario_C_pair = (dbl 0, dbl 0, dbl 0.8)
   \<and> nhat_BA_W scenario_C_pair = (dbl 0, dbl 0, dbl 1)
   \<and> length (point_pair_contact_info scenario_results) = 1
   \<and> pp_timestamp (point_pair_contact_info scenario_results ! 0) = timestamp scenario_results
   \<and> contact_point (point_pair_contact_info scenario_results ! 0) = (dbl 0, dbl 0, dbl 0.9)
   \<and> contact_force (point_pair_contact_info scenario_results ! 0) = (dbl 0, dbl 0, dbl 1)
   \<and> normal (point_pair_contact_info scenario_results ! 0) = (dbl 0, dbl 0, dbl 1)"
proof -
  have cc: "compute_contacts False scenario_query = Some ([scenario_B_surface], [scenario_C_pair])"
    by (simp add: compute_contacts_def scenario_query_def)
  have h: "length [scenario_C_pair] < 2 ^ 31" "(0::nat) < length [scenario_C_pair]"
    by simp_all
  have pair: "p_WCa scenario_C_pair = (dbl 0, dbl 0, dbl 1)"
    "p_WCb scenario_C_pair = (dbl 0, dbl 0, dbl 0.8)"
    "nhat_BA_W scenario_C_pair = (dbl 0, dbl 0, dbl 1)"
    by (simp_all add: scenario_C_pair_def)
  note T = point_pair_record_fields [OF scenario_run cc h]
  have fields: "length (point_pair_contact_info scenario_results) = 1"
    "pp_timestamp (point_pair_contact_info scenario_results ! 0) = timestamp scenario_results"
    "contact_point (point_pair_contact_info scenario_results ! 0) = (dbl 0, dbl 0, dbl 0.9)"
    "contact_force (point_pair_contact_info scenario_results ! 0) = (dbl 0, dbl 0, dbl 1)"
    "normal (point_pair_contact_info scenario_results ! 0) = (dbl 0, dbl 0, dbl 1)"
    using T by (simp_all add: pair scenario_C_midpoint)
  show ?thesis
    by (intro conjI scenario_run cc h pair fields)
qed

text \<open>
  The claim as stated fails on three inputs. For the near-points \<open>(0, 0, 1)\<close> and
  \<open>(0, 0, 2 ^ -53)\<close> the sum \<open>1 + 2 ^ -53\<close> rounds to \<open>1\<close> and the contact point is
  \<open>(0, 0, 1 / 2)\<close>, not the midpoint. For two near-points \<open>(0, 0, 2 ^ 1023)\<close> the midpoint
  is the binary64 value \<open>2 ^ 1023\<close>, but the sum overflows and the contact point is
  \<open>(0, 0, +\<infinity>)\<close>. For a query result of \<open>2 ^ 32\<close> point pairs the narrowed count is 0
  and the message has no record at all.
\<close>

theorem contact_point_not_exact_midpoint:
  "CalcContactResults False scenario_context extreme_query default_results
     = Some extreme_results
   \<and> ComputeContactSurfacesWithFallback extreme_query = Some ([], [half_ulp_pair, overflow_pair])
   \<and> p_WCa half_ulp_pair = (Finite 0, Finite 0, Finite 1)
   \<and> p_WCb half_ulp_pair = (Finite 0, Finite 0, Finite (1 / 9007199254740992))
   \<and> contact_point (point_pair_contact_info extreme_results ! 0)
        = (Finite 0, Finite 0, Finite (1 / 2))
   \<and> (1 + 1 / 9007199254740992) / 2 \<noteq> (1 / 2 :: real)
   \<and> p_WCa overflow_pair = (Finite 0, Finite 0, Finite (2 ^ 1023))
   \<and> p_WCb overflow_pair = (Finite 0, Finite 0, Finite (2 ^ 1023))
   \<and> contact_point (point_pair_contact_info extreme_results ! 1)
        = (Finite 0, Finite 0, PosInf)
   \<and> (2 ^ 1023 + 2 ^ 1023) / 2 = (2 ^ 1023 :: real)
   \<and> is_binary64 (2 ^ 1023)
   \<and> ComputeContactSurfacesWithFallback oversized_pairs_query
        = Some ([], replicate (2 ^ 32) scenario_C_pair)
   \<and> length (replicate (2 ^ 32) scenario_C_pair) = 2 ^ 32
   \<and> CalcContactResults False \<lparr>get_time = dbl (1 / 1048576)\<rparr> oversized_pairs_query
        default_results = Some (empty_results 0)
   \<and> point_pair_contact_info (empty_results 0) = []"
proof -
  have a: "ComputeContactSurfacesWithFallback extreme_query
             = Some ([], [half_ulp_pair, overflow_pair])"
    by (simp add: extreme_query_def)
  have b: "p_WCa half_ulp_pair = (Finite 0, Finite 0, Finite 1)"
    "p_WCb half_ulp_pair = (Finite 0, Finite 0, Finite (1 / 9007199254740992))"
    by (simp_all add: half_ulp_pair_def)
  have c: "contact_point (point_pair_contact_info extreme_results ! 0)
        = (Finite 0, Finite 0, Finite (1 / 2))"
    "contact_point (point_pair_contact_info extreme_results ! 1)
        = (Finite 0, Finite 0, PosInf)"
    by (simp_all add: extreme_results_def)
  have d: "(1 + 1 / 9007199254740992) / 2 \<noteq> (1 / 2 :: real)"
    by simp
  have e: "p_WCa overflow_pair = (Finite 0, Finite 0, Finite (2 ^ 1023))"
    "p_WCb overflow_pair = (Finite 0, Finite 0, Finite (2 ^ 1023))"
    by (simp_all only: overflow_pair_def PenetrationAsPointPair.simps)
  have f: "(2 ^ 1023 + 2 ^ 1023) / 2 = (2 ^ 1023 :: real)"
    by simp
  have g: "is_binary64 (2 ^ 1023)"
    by (rule is_binary64_power) simp
  have h: "ComputeContactSurfacesWithFallback oversized_pairs_query
        = Some ([], replicate (2 ^ 32) scenario_C_pair)"
    by (simp only: oversized_pairs_query_def QueryObject.simps)
  have k: "length (replicate (2 ^ 32) scenario_C_pair) = 2 ^ 32"
    by (rule length_replicate)
  have l: "point_pair_contact_info (empty_results 0) = []"
    by (simp add: empty_results_def)
  show ?thesis
    by (intro conjI extreme_run a b c d e f g h k oversized_pairs_run l)
qed

subsection \<open>Strict and fallback contact queries\<close>

text \<open>
  Claim C6: with strict mode selected the evaluation consults the hydroelastic contact
  surface computation of the query object and nothing else of it (neither the fallback
  computation nor the name lookup), a failure of that computation is a failure of the
  evaluation, the surfaces it returns are the ones encoded, position by position, and the
  message has no point pair: \<^verbatim>\<open>num_point_pair_contacts\<close> is 0 and
  \<^verbatim>\<open>point_pair_contact_info\<close> is empty. Without strict mode the evaluation consults the
  fallback computation and the name lookup only, and the fallback computation gives both
  sequences: the surfaces and the point pairs it returns are the ones encoded, position by
  position, and counted.
\<close>

theorem strict_mode_selects_computation:
  "(ComputeContactSurfaces q = ComputeContactSurfaces q' \<longrightarrow>
      CalcContactResults True ctx q r = CalcContactResults True ctx q' r) \<and>
   (CalcContactResults True ctx q r = Some msg \<longrightarrow>
      (\<exists>surfaces. ComputeContactSurfaces q = Some surfaces \<and>
         num_hydroelastic_contacts msg = static_cast_int (length surfaces) \<and>
         length (hydroelastic_contacts msg) = nat (static_cast_int (length surfaces)) \<and>
         (\<forall>i < length (hydroelastic_contacts msg).
            encode_surface (surfaces ! i) default_surface
              = Some (hydroelastic_contacts msg ! i))) \<and>
      num_point_pair_contacts msg = 0 \<and> point_pair_contact_info msg = []) \<and>
   (ComputeContactSurfaces q = None \<longrightarrow> CalcContactResults True ctx q r = None) \<and>
   (ComputeContactSurfacesWithFallback q = ComputeContactSurfacesWithFallback q' \<and>
    GetName q = GetName q' \<longrightarrow>
      CalcContactResults False ctx q r = CalcContactResults False ctx q' r) \<and>
   (CalcContactResults False ctx q r = Some msg \<longrightarrow>
      (\<exists>surfaces points. ComputeContactSurfacesWithFallback q = Some (surfaces, points) \<and>
         num_hydroelastic_contacts msg = static_cast_int (length surfaces) \<and>
         length (hydroelastic_contacts msg) = nat (static_cast_int (length surfaces)) \<and>
         (\<forall>i < length (hydroelastic_contacts msg).
            encode_surface (surfaces ! i) default_surface
              = Some (hydroelastic_contacts msg ! i)) \<and>
         num_point_pair_contacts msg = static_cast_int (length points) \<and>
         length (point_pair_contact_info msg) = nat (static_cast_int (length points)) \<and>
         (\<forall>i < length (point_pair_contact_info msg).
            encode_point_pair (timestamp msg) q (points ! i)
              (if i < length (point_pair_contact_info r)
               then point_pair_contact_info r ! i else default_info)
              = Some (point_pair_contact_info msg ! i)))) \<and>
   (ComputeContactSurfacesWithFallback q = None \<longrightarrow> CalcContactResults False ctx q r = None)"
proof -
  have handed_on:
    "num_hydroelastic_contacts msg = static_cast_int (length surfaces) \<and>
     length (hydroelastic_contacts msg) = nat (static_cast_int (length surfaces)) \<and>
     (\<forall>i < length (hydroelastic_contacts msg).
        encode_surface (surfaces ! i) default_surface = Some (hydroelastic_contacts msg ! i)) \<and>
     num_point_pair_contacts msg = static_cast_int (length points) \<and>
     length (point_pair_contact_info msg) = nat (static_cast_int (length points)) \<and>
     (\<forall>i < length (point_pair_contact_info msg).
        encode_point_pair (timestamp msg) q (points ! i)
          (if i < length (point_pair_contact_info r)
           then point_pair_contact_info r ! i else default_info)
          = Some (point_pair_contact_info msg ! i))"
    if run: "CalcContactResults strict ctx q r = Some msg"
      and cc: "compute_contacts strict q = Some (surfaces, points)"
    for strict surfaces points
  proof -
    from run obtain surfaces' points' ts where
      cc': "compute_contacts strict q = Some (surfaces', points')"
      and ok': "contacts_ok q surfaces' points'"
      and msg': "msg = results_record ts q surfaces' points' r"
      by (rule CalcContactResults_SomeD)
    from cc cc' have "surfaces' = surfaces" "points' = points" by simp_all
    with ok' msg' have ok: "contacts_ok q surfaces points"
      and msg: "msg = results_record ts q surfaces points r" by simp_all
    have ts: "timestamp msg = ts"
      by (simp add: msg results_record_def)
    have counts: "num_hydroelastic_contacts msg = static_cast_int (length surfaces)"
      "num_point_pair_contacts msg = static_cast_int (length points)"
      by (simp_all add: msg results_record_def)
    have lens: "length (hydroelastic_contacts msg) = nat (static_cast_int (length surfaces))"
      "length (point_pair_contact_info msg) = nat (static_cast_int (length points))"
      by (simp_all add: msg results_record_lengths)
    have surf: "encode_surface (surfaces ! i) default_surface
                  = Some (hydroelastic_contacts msg ! i)"
      if "i < length (hydroelastic_contacts msg)" for i
    proof -
      from that have i: "i < nat (static_cast_int (length surfaces))"
        by (simp add: lens)
      show ?thesis
        using contacts_okD(3) [OF ok i]
        by (simp add: encode_surface_closed msg results_record_nth_surface [OF i])
    qed
    have pair: "encode_point_pair (timestamp msg) q (points ! i)
          (if i < length (point_pair_contact_info r)
           then point_pair_contact_info r ! i else default_info)
          = Some (point_pair_contact_info msg ! i)"
      if "i < length (point_pair_contact_info msg)" for i
    proof -
      from that have i: "i < nat (static_cast_int (length points))"
        by (simp add: lens)
      have "body2_name (if i < length (point_pair_contact_info r)
               then point_pair_contact_info r ! i else default_info) = kept_body2_name r i"
        by (simp add: kept_body2_name_def default_info_def)
      then show ?thesis
        using contacts_okD(4) [OF ok i]
        by (simp add: encode_point_pair_closed ts [unfolded msg] msg
            results_record_nth_pair [OF i])
    qed
    from counts lens surf pair show ?thesis by blast
  qed
  have 1: "CalcContactResults True ctx q r = CalcContactResults True ctx q' r"
    if "ComputeContactSurfaces q = ComputeContactSurfaces q'"
    using that
    by (auto simp: CalcContactResults_closed compute_contacts_def contacts_ok_def
        results_record_def static_cast_int_small split: option.splits)
  have 2: "(\<exists>surfaces. ComputeContactSurfaces q = Some surfaces \<and>
         num_hydroelastic_contacts msg = static_cast_int (length surfaces) \<and>
         length (hydroelastic_contacts msg) = nat (static_cast_int (length surfaces)) \<and>
         (\<forall>i < length (hydroelastic_contacts msg).
            encode_surface (surfaces ! i) default_surface
              = Some (hydroelastic_contacts msg ! i))) \<and>
      num_point_pair_contacts msg = 0 \<and> point_pair_contact_info msg = []"
    if run: "CalcContactResults True ctx q r = Some msg"
  proof -
    from run obtain surfaces where s: "ComputeContactSurfaces q = Some surfaces"
      by (auto simp: CalcContactResults_closed compute_contacts_def split: option.splits)
    then have cc: "compute_contacts True q = Some (surfaces, [])"
      by (simp add: compute_contacts_def)
    from handed_on [OF run cc] s show ?thesis
      by (simp add: static_cast_int_small)
  qed
  have 3: "CalcContactResults True ctx q r = None" if "ComputeContactSurfaces q = None"
    using that by (simp add: CalcContactResults_closed compute_contacts_def)
  have 4: "CalcContactResults False ctx q r = CalcContactResults False ctx q' r"
    if "ComputeContactSurfacesWithFallback q = ComputeContactSurfacesWithFallback q'"
      and "GetName q = GetName q'"
    using that
    by (auto simp: CalcContactResults_closed compute_contacts_def contacts_ok_def
        results_record_def pair_ok_def pair_record_def split: option.splits)
  have 5: "\<exists>surfaces points. ComputeContactSurfacesWithFallback q = Some (surfaces, points) \<and>
         num_hydroelastic_contacts msg = static_cast_int (length surfaces) \<and>
         length (hydroelastic_contacts msg) = nat (static_cast_int (length surfaces)) \<and>
         (\<forall>i < length (hydroelastic_contacts msg).
            encode_surface (surfaces ! i) default_surface
              = Some (hydroelastic_contacts msg ! i)) \<and>
         num_point_pair_contacts msg = static_cast_int (length points) \<and>
         length (point_pair_contact_info msg) = nat (static_cast_int (length points)) \<and>
         (\<forall>i < length (point_pair_contact_info msg).
            encode_point_pair (timestamp msg) q (points ! i)
              (if i < length (point_pair_contact_info r)
               then point_pair_contact_info r ! i else default_info)
              = Some (point_pair_contact_info msg ! i))"
    if run: "CalcContactResults False ctx q r = Some msg"
  proof -
    from run obtain surfaces points
      where s: "ComputeContactSurfacesWithFallback q = Some (surfaces, points)"
      by (auto simp: CalcContactResults_closed compute_contacts_def split: option.splits)
    then have cc: "compute_contacts False q = Some (surfaces, points)"
      by (simp add: compute_contacts_def)
    from handed_on [OF run cc] s show ?thesis
      by blast
  qed
  have 6: "CalcContactResults False ctx q r = None"
    if "ComputeContactSurfacesWithFallback q = None"
    using that by (simp add: CalcContactResults_closed compute_contacts_def)
  from 1 2 3 4 5 6 show ?thesis by blast
qed

theorem strict_mode_selects_computation_witness:
  "ComputeContactSurfaces scenario_query = ComputeContactSurfaces other_query
   \<and> ComputeContactSurfacesWithFallback scenario_query
        \<noteq> ComputeContactSurfacesWithFallback other_query
   \<and> CalcContactResults True scenario_context scenario_query default_results = Some strict_results
   \<and> CalcContactResults True scenario_context other_query default_results = Some strict_results
   \<and> ComputeContactSurfaces scenario_query = Some [scenario_B_surface]
   \<and> num_hydroelastic_contacts strict_results = 1
   \<and> length (hydroelastic_contacts strict_results) = 1
   \<and> encode_surface scenario_B_surface default_surface
        = Some (hydroelastic_contacts strict_results ! 0)
   \<and> num_point_pair_contacts strict_results = 0
   \<and> point_pair_contact_info strict_results = []
   \<and> ComputeContactSurfaces fallback_only_query = None
   \<and> CalcContactResults True scenario_context fallback_only_query default_results = None
   \<and> ComputeContactSurfacesWithFallback scenario_query
        = ComputeContactSurfacesWithFallback fallback_only_query
   \<and> GetName scenario_query = GetName fallback_only_query
   \<and> CalcContactResults False scenario_context scenario_query default_results
        = Some scenario_results
   \<and> CalcContactResults False scenario_context fallback_only_query default_results
        = Some scenario_results
   \<and> ComputeContactSurfacesWithFallback scenario_query
        = Some ([scenario_B_surface], [scenario_C_pair])
   \<and> num_hydroelastic_contacts scenario_results = 1
   \<and> length (hydroelastic_contacts scenario_results) = 1
   \<and> encode_surface scenario_B_surface default_surface
        = Some (hydroelastic_contacts scenario_results ! 0)
   \<and> num_point_pair_contacts scenario_results = 1
   \<and> length (point_pair_contact_info scenario_results) = 1
   \<and> encode_point_pair (timestamp scenario_results) scenario_query scenario_C_pair default_info
        = Some (point_pair_contact_info scenario_results ! 0)
   \<and> ComputeContactSurfacesWithFallback other_query = None
   \<and> CalcContactResults False scenario_context other_query default_results = None"
proof -
  have same_strict: "ComputeContactSurfaces scenario_query = ComputeContactSurfaces other_query"
    by (simp add: scenario_query_def other_query_def)
  have same_fallback:
    "ComputeContactSurfacesWithFallback scenario_query
       = ComputeContactSurfacesWithFallback fallback_only_query"
    "GetName scenario_query = GetName fallback_only_query"
    by (simp_all add: scenario_query_def fallback_only_query_def)
  have none: "ComputeContactSurfaces fallback_only_query = None"
    "ComputeContactSurfacesWithFallback other_query = None"
    by (simp_all add: fallback_only_query_def other_query_def)
  have differ: "ComputeContactSurfacesWithFallback scenario_query
                  \<noteq> ComputeContactSurfacesWithFallback other_query"
    by (simp add: scenario_query_def other_query_def)
  have engine: "ComputeContactSurfaces scenario_query = Some [scenario_B_surface]"
    "ComputeContactSurfacesWithFallback scenario_query
       = Some ([scenario_B_surface], [scenario_C_pair])"
    by (simp_all add: scenario_query_def)
  have old: "point_pair_contact_info default_results = []"
    by (simp add: default_results_def)
  note A = strict_mode_selects_computation
    [of scenario_query other_query scenario_context default_results strict_results]
  note B = strict_mode_selects_computation
    [of scenario_query fallback_only_query scenario_context default_results scenario_results]
  note C = strict_mode_selects_computation
    [of fallback_only_query other_query scenario_context default_results]
  note D = strict_mode_selects_computation
    [of other_query other_query scenario_context default_results]
  have a1: "CalcContactResults True scenario_context other_query default_results
              = Some strict_results"
    using A same_strict strict_run by simp
  from A strict_run engine(1)
  have a2: "num_hydroelastic_contacts strict_results = static_cast_int (length [scenario_B_surface])"
    "length (hydroelastic_contacts strict_results)
       = nat (static_cast_int (length [scenario_B_surface]))"
    "\<forall>i < length (hydroelastic_contacts strict_results).
        encode_surface ([scenario_B_surface] ! i) default_surface
          = Some (hydroelastic_contacts strict_results ! i)"
    "num_point_pair_contacts strict_results = 0"
    "point_pair_contact_info strict_results = []"
    by auto
  have a3: "num_hydroelastic_contacts strict_results = 1"
    "length (hydroelastic_contacts strict_results) = 1"
    using a2(1,2) by (simp_all add: static_cast_int_small)
  have a4: "encode_surface scenario_B_surface default_surface
        = Some (hydroelastic_contacts strict_results ! 0)"
    using a2(3) a3(2) by auto
  have c3: "CalcContactResults True scenario_context fallback_only_query default_results = None"
    using C none(1) by simp
  have b4: "CalcContactResults False scenario_context fallback_only_query default_results
              = Some scenario_results"
    using B same_fallback scenario_run by simp
  from B scenario_run engine(2)
  have b5: "num_hydroelastic_contacts scenario_results
              = static_cast_int (length [scenario_B_surface])"
    "length (hydroelastic_contacts scenario_results)
       = nat (static_cast_int (length [scenario_B_surface]))"
    "\<forall>i < length (hydroelastic_contacts scenario_results).
        encode_surface ([scenario_B_surface] ! i) default_surface
          = Some (hydroelastic_contacts scenario_results ! i)"
    "num_point_pair_contacts scenario_results = static_cast_int (length [scenario_C_pair])"
    "length (point_pair_contact_info scenario_results)
       = nat (static_cast_int (length [scenario_C_pair]))"
    "\<forall>i < length (point_pair_contact_info scenario_results).
        encode_point_pair (timestamp scenario_results) scenario_query ([scenario_C_pair] ! i)
          (if i < length (point_pair_contact_info default_results)
           then point_pair_contact_info default_results ! i else default_info)
          = Some (point_pair_contact_info scenario_results ! i)"
    by auto
  have b6: "num_hydroelastic_contacts scenario_results = 1"
    "length (hydroelastic_contacts scenario_results) = 1"
    "num_point_pair_contacts scenario_results = 1"
    "length (point_pair_contact_info scenario_results) = 1"
    using b5(1,2,4,5) by (simp_all add: static_cast_int_small)
  have b7: "encode_surface scenario_B_surface default_surface
        = Some (hydroelastic_contacts scenario_results ! 0)"
    using b5(3) b6(2) by auto
  have b8: "encode_point_pair (timestamp scenario_results) scenario_query scenario_C_pair
              default_info = Some (point_pair_contact_info scenario_results ! 0)"
    using b5(6) b6(4) old by auto
  have d6: "CalcContactResults False scenario_context other_query default_results = None"
    using D none(2) by simp
  show ?thesis
    by (intro conjI same_strict differ strict_run a1 engine a3 a4 a2(4,5) none c3
        same_fallback scenario_run b4 b6 b7 b8 d6)
qed

subsection \<open>Placeholder vectors\<close>

text \<open>
  Claim C7: every surface message has the aggregate force \<^verbatim>\<open>force_C_W\<close> \<open>(1, 0, 0)\<close> and
  the aggregate moment \<^verbatim>\<open>moment_C_W\<close> \<open>(0, 0, 1)\<close>, whether or not its mesh has a face,
  and for every triangle of it the slip velocity \<^verbatim>\<open>vt_BqAq_W\<close> is \<open>(0, 0.2, 0)\<close> and the
  traction \<^verbatim>\<open>traction_Aq_W\<close> is \<open>(0, -0.2, 0)\<close>: the binary64 values of these literals,
  whatever the mesh, the pressure field and the time are. Every surface of the query
  result has its surface message and every face of its mesh its triangle and its
  quadrature point, as long as their numbers are representable as \<^verbatim>\<open>int\<close>.
\<close>

theorem placeholder_vectors_constant:
  assumes "CalcContactResults strict ctx q r = Some msg"
    and "compute_contacts strict q = Some (surfaces, points)"
  shows "(length surfaces < 2 ^ 31 \<longrightarrow>
            length (hydroelastic_contacts msg) = length surfaces) \<and>
         (\<forall>i < length (hydroelastic_contacts msg).
            force_C_W (hydroelastic_contacts msg ! i) = (dbl 1, dbl 0, dbl 0) \<and>
            moment_C_W (hydroelastic_contacts msg ! i) = (dbl 0, dbl 0, dbl 1) \<and>
            (length (mesh_triangles (mesh_W (surfaces ! i))) < 2 ^ 31 \<longrightarrow>
               length (triangles (hydroelastic_contacts msg ! i))
                 = length (mesh_triangles (mesh_W (surfaces ! i)))) \<and>
            length (quadrature_point_data (hydroelastic_contacts msg ! i))
              = length (triangles (hydroelastic_contacts msg ! i)) \<and>
            (\<forall>j < length (triangles (hydroelastic_contacts msg ! i)).
               vt_BqAq_W (quadrature_point_data (hydroelastic_contacts msg ! i) ! j)
                 = (dbl 0, dbl 0.2, dbl 0) \<and>
               traction_Aq_W (quadrature_point_data (hydroelastic_contacts msg ! i) ! j)
                 = (dbl 0, fneg (dbl 0.2), dbl 0)))"
proof -
  from assms(1) obtain surfaces' points' ts where
    cc: "compute_contacts strict q = Some (surfaces', points')"
    and ok: "contacts_ok q surfaces' points'"
    and msg': "msg = results_record ts q surfaces' points' r"
    by (rule CalcContactResults_SomeD)
  from cc assms(2) have "surfaces' = surfaces" "points' = points" by simp_all
  with ok msg' have ok: "contacts_ok q surfaces points"
    and msg: "msg = results_record ts q surfaces points r" by simp_all
  have len: "length (hydroelastic_contacts msg) = length surfaces"
    if "length surfaces < 2 ^ 31"
    using that by (simp add: msg results_record_lengths static_cast_int_small)
  have each: "force_C_W (hydroelastic_contacts msg ! i) = (dbl 1, dbl 0, dbl 0) \<and>
            moment_C_W (hydroelastic_contacts msg ! i) = (dbl 0, dbl 0, dbl 1) \<and>
            (length (mesh_triangles (mesh_W (surfaces ! i))) < 2 ^ 31 \<longrightarrow>
               length (triangles (hydroelastic_contacts msg ! i))
                 = length (mesh_triangles (mesh_W (surfaces ! i)))) \<and>
            length (quadrature_point_data (hydroelastic_contacts msg ! i))
              = length (triangles (hydroelastic_contacts msg ! i)) \<and>
            (\<forall>j < length (triangles (hydroelastic_contacts msg ! i)).
               vt_BqAq_W (quadrature_point_data (hydroelastic_contacts msg ! i) ! j)
                 = (dbl 0, dbl 0.2, dbl 0) \<and>
               traction_Aq_W (quadrature_point_data (hydroelastic_contacts msg ! i) ! j)
                 = (dbl 0, fneg (dbl 0.2), dbl 0))"
    if "i < length (hydroelastic_contacts msg)" for i
  proof -
    from that have i: "i < nat (static_cast_int (length surfaces))"
      by (simp add: msg results_record_lengths)
    have sm: "hydroelastic_contacts msg ! i = surface_record (surfaces ! i)"
      unfolding msg by (rule results_record_nth_surface [OF i])
    show ?thesis
      unfolding sm
      by (simp add: surface_record_def Let_def quad_record_def mesh_num_triangles_def
          static_cast_int_small)
  qed
  from len each show ?thesis by blast
qed

theorem placeholder_vectors_constant_witness:
  "CalcContactResults False scenario_context scenario_query default_results = Some scenario_results
   \<and> compute_contacts False scenario_query = Some ([scenario_B_surface], [scenario_C_pair])
   \<and> length [scenario_B_surface] < 2 ^ 31
   \<and> length (hydroelastic_contacts scenario_results) = 1
   \<and> length (mesh_triangles (mesh_W ([scenario_B_surface] ! 0))) < 2 ^ 31
   \<and> length (triangles (hydroelastic_contacts scenario_results ! 0)) = 1
   \<and> length (quadrature_point_data (hydroelastic_contacts scenario_results ! 0)) = 1
   \<and> force_C_W (hydroelastic_contacts scenario_results ! 0) = (dbl 1, dbl 0, dbl 0)
   \<and> moment_C_W (hydroelastic_contacts scenario_results ! 0) = (dbl 0, dbl 0, dbl 1)
   \<and> vt_BqAq_W (quadrature_point_data (hydroelastic_contacts scenario_results ! 0) ! 0)
        = (dbl 0, dbl 0.2, dbl 0)
   \<and> traction_Aq_W (quadrature_point_data (hydroelastic_contacts scenario_results ! 0) ! 0)
        = (dbl 0, fneg (dbl 0.2), dbl 0)
   \<and> dbl 0 = Finite 0 \<and> dbl 1 = Finite 1
   \<and> dbl 0.2 = Finite (3602879701896397 / 18014398509481984)
   \<and> fneg (dbl 0.2) = Finite (- (3602879701896397 / 18014398509481984))"
proof -
  have cc: "compute_contacts False scenario_query = Some ([scenario_B_surface], [scenario_C_pair])"
    by (simp add: compute_contacts_def scenario_query_def)
  have h: "length [scenario_B_surface] < 2 ^ 31"
    "length (mesh_triangles (mesh_W ([scenario_B_surface] ! 0))) < 2 ^ 31"
    by (simp_all add: scenario_B_surface_def scenario_B_mesh_def)
  have faces: "length (mesh_triangles (mesh_W ([scenario_B_surface] ! 0))) = 1"
    by (simp add: scenario_B_surface_def scenario_B_mesh_def)
  note T = placeholder_vectors_constant [OF scenario_run cc]
  have len: "length (hydroelastic_contacts scenario_results) = 1"
    using T h(1) by simp
  with T have S: "force_C_W (hydroelastic_contacts scenario_results ! 0) = (dbl 1, dbl 0, dbl 0)"
    "moment_C_W (hydroelastic_contacts scenario_results ! 0) = (dbl 0, dbl 0, dbl 1)"
    "length (triangles (hydroelastic_contacts scenario_results ! 0))
       = length (mesh_triangles (mesh_W ([scenario_B_surface] ! 0)))"
    "length (quadrature_point_data (hydroelastic_contacts scenario_results ! 0))
       = length (triangles (hydroelastic_contacts scenario_results ! 0))"
    "\<forall>j < length (triangles (hydroelastic_contacts scenario_results ! 0)).
       vt_BqAq_W (quadrature_point_data (hydroelastic_contacts scenario_results ! 0) ! j)
         = (dbl 0, dbl 0.2, dbl 0) \<and>
       traction_Aq_W (quadrature_point_data (hydroelastic_contacts scenario_results ! 0) ! j)
         = (dbl 0, fneg (dbl 0.2), dbl 0)"
    using h(2) by auto
  have lt: "length (triangles (hydroelastic_contacts scenario_results ! 0)) = 1"
    "length (quadrature_point_data (hydroelastic_contacts scenario_results ! 0)) = 1"
    using S(3,4) faces by simp_all
  have Q: "vt_BqAq_W (quadrature_point_data (hydroelastic_contacts scenario_results ! 0) ! 0)
        = (dbl 0, dbl 0.2, dbl 0)"
    "traction_Aq_W (quadrature_point_data (hydroelastic_contacts scenario_results ! 0) ! 0)
        = (dbl 0, fneg (dbl 0.2), dbl 0)"
    using S(5) lt(1) by auto
  have fifth: "dbl 0.2 = Finite (3602879701896397 / 18014398509481984)"
    by (simp add: dbl_def round_binary64_eqI [where e = "- 3"] round_half_even_def)
  then have neg: "fneg (dbl 0.2) = Finite (- (3602879701896397 / 18014398509481984))"
    by (simp only: fneg.simps)
  show ?thesis
    by (intro conjI scenario_run cc h len lt S(1,2) Q dbl_values(1,2) fifth neg)
qed

subsection \<open>Independence of earlier evaluations\<close>

text \<open>
  Claim C8: the message is a function of the snapshot (mode, time, query object) alone.
  The code updates the message object it is handed and \<^verbatim>\<open>resize\<close> keeps elements an
  earlier evaluation wrote, so the statement is about the message objects that can reach
  an evaluation: the freshly allocated one and every message an earlier evaluation
  returned (\<^const>\<open>reachable\<close>). From any two of them the evaluation of one snapshot
  gives the same result; in particular evaluating a snapshot twice gives the same
  message twice.
\<close>

theorem encoding_is_stateless:
  assumes "reachable r" and "reachable r'"
  shows "CalcContactResults strict ctx q r = CalcContactResults strict ctx q r'"
proof -
  have "kept_body2_name r i = kept_body2_name r' i" for i
    using kept_body2_name_clear [OF reachable_body2_name_clear [OF assms(1)]]
      kept_body2_name_clear [OF reachable_body2_name_clear [OF assms(2)]]
    by simp
  then have "results_record ts q surfaces points r = results_record ts q surfaces points r'"
    for ts surfaces points
    by (rule results_record_kept_cong)
  then show ?thesis
    by (simp add: CalcContactResults_closed split: option.splits prod.splits)
qed

theorem encoding_is_stateless_witness:
  "reachable default_results \<and> reachable scenario_results
   \<and> CalcContactResults False scenario_context scenario_query default_results
        = Some scenario_results
   \<and> CalcContactResults False scenario_context scenario_query scenario_results
        = Some scenario_results"
proof -
  have r0: "reachable default_results" by (rule reachable.fresh)
  have r1: "reachable scenario_results" by (rule reachable.step [OF r0 scenario_run])
  show ?thesis
    using encoding_is_stateless [OF r1 r0, of False scenario_context scenario_query]
      r0 r1 scenario_run
    by simp
qed

subsection \<open>What the point pair encoding leaves untouched\<close>

text \<open>
  Claim C9: the encoding of a point pair never assigns \<^verbatim>\<open>body2_name\<close>: the field keeps
  the value the message element had, which is the empty string of a value-initialised
  element for every message object that can reach an evaluation. \<^verbatim>\<open>body1_name\<close> ends
  up with the name looked up for the second body \<^verbatim>\<open>id_B\<close>, after the name of \<^verbatim>\<open>id_A\<close> has
  been looked up (and assigned) first. No field other than \<^verbatim>\<open>timestamp\<close>,
  \<^verbatim>\<open>body1_name\<close>, \<^verbatim>\<open>contact_point\<close>, \<^verbatim>\<open>contact_force\<close> and \<^verbatim>\<open>normal\<close> changes.
\<close>

theorem point_pair_body2_name_never_assigned:
  "(encode_point_pair ts q pair info = Some info' \<longrightarrow>
      GetName q (id_A pair) \<noteq> None \<and>
      GetName q (id_B pair) = Some (body1_name info') \<and>
      body2_name info' = body2_name info \<and>
      info' = info\<lparr>pp_timestamp := pp_timestamp info', body1_name := body1_name info',
                    contact_point := contact_point info',
                    contact_force := contact_force info', normal := normal info'\<rparr>) \<and>
   (CalcContactResults strict ctx q r = Some msg \<and>
    compute_contacts strict q = Some (surfaces, points) \<and>
    i < length (point_pair_contact_info msg) \<longrightarrow>
      i < length points \<and>
      GetName q (id_A (points ! i)) \<noteq> None \<and>
      GetName q (id_B (points ! i)) = Some (body1_name (point_pair_contact_info msg ! i)) \<and>
      body2_name (point_pair_contact_info msg ! i) =
        (if i < length (point_pair_contact_info r)
         then body2_name (point_pair_contact_info r ! i) else []) \<and>
      (reachable r \<longrightarrow> body2_name (point_pair_contact_info msg ! i) = []))"
proof -
  have 1: "GetName q (id_A pair) \<noteq> None \<and>
      GetName q (id_B pair) = Some (body1_name info') \<and>
      body2_name info' = body2_name info \<and>
      info' = info\<lparr>pp_timestamp := pp_timestamp info', body1_name := body1_name info',
                    contact_point := contact_point info',
                    contact_force := contact_force info', normal := normal info'\<rparr>"
    if "encode_point_pair ts q pair info = Some info'"
    using that
    by (cases info)
       (auto simp: encode_point_pair_closed pair_ok_def pair_record_def split: if_splits)
  have 2: "i < length points \<and>
      GetName q (id_A (points ! i)) \<noteq> None \<and>
      GetName q (id_B (points ! i)) = Some (body1_name (point_pair_contact_info msg ! i)) \<and>
      body2_name (point_pair_contact_info msg ! i) =
        (if i < length (point_pair_contact_info r)
         then body2_name (point_pair_contact_info r ! i) else []) \<and>
      (reachable r \<longrightarrow> body2_name (point_pair_contact_info msg ! i) = [])"
    if run: "CalcContactResults strict ctx q r = Some msg"
      and cc: "compute_contacts strict q = Some (surfaces, points)"
      and i: "i < length (point_pair_contact_info msg)"
  proof -
    from run obtain surfaces' points' ts' where
      cc': "compute_contacts strict q = Some (surfaces', points')"
      and ok': "contacts_ok q surfaces' points'"
      and msg': "msg = results_record ts' q surfaces' points' r"
      by (rule CalcContactResults_SomeD)
    from cc cc' have "surfaces' = surfaces" "points' = points" by simp_all
    with ok' msg' have ok: "contacts_ok q surfaces points"
      and msg: "msg = results_record ts' q surfaces points r" by simp_all
    from i have i': "i < nat (static_cast_int (length points))"
      by (simp add: msg results_record_lengths)
    have "int i < static_cast_int (length points)"
      using i' by simp
    also have "\<dots> \<le> int (length points)"
      by (rule static_cast_int_le)
    finally have il: "i < length points" by simp
    have nth: "point_pair_contact_info msg ! i
                 = pair_record ts' q (points ! i) (kept_body2_name r i)"
      unfolding msg by (rule results_record_nth_pair [OF i'])
    have pok: "pair_ok q (points ! i)"
      by (rule contacts_okD(4) [OF ok i'])
    have clear: "kept_body2_name r i = []" if "reachable r"
      by (rule kept_body2_name_clear [OF reachable_body2_name_clear [OF that]])
    show ?thesis
      using il pok clear
      by (auto simp: nth pair_record_def pair_ok_def kept_body2_name_def)
  qed
  from 1 2 show ?thesis by blast
qed

theorem point_pair_body2_name_never_assigned_witness:
  "encode_point_pair 1500000 scenario_query scenario_C_pair stale_info = Some scenario_info
   \<and> GetName scenario_query (id_A scenario_C_pair) = Some ''can1''
   \<and> GetName scenario_query (id_B scenario_C_pair) = Some ''can2''
   \<and> body1_name scenario_info = ''can2''
   \<and> body2_name stale_info = ''old2''
   \<and> body2_name scenario_info = ''old2''
   \<and> CalcContactResults False scenario_context scenario_query default_results
        = Some scenario_results
   \<and> compute_contacts False scenario_query = Some ([scenario_B_surface], [scenario_C_pair])
   \<and> (0::nat) < length (point_pair_contact_info scenario_results)
   \<and> reachable default_results
   \<and> body1_name (point_pair_contact_info scenario_results ! 0) = ''can2''
   \<and> body2_name (point_pair_contact_info scenario_results ! 0) = []"
proof -
  have cc: "compute_contacts False scenario_query = Some ([scenario_B_surface], [scenario_C_pair])"
    by (simp add: compute_contacts_def scenario_query_def)
  have len: "(0::nat) < length (point_pair_contact_info scenario_results)"
    by (simp add: scenario_results_def)
  have names: "GetName scenario_query (id_A scenario_C_pair) = Some ''can1''"
    "GetName scenario_query (id_B scenario_C_pair) = Some ''can2''"
    by (simp_all add: scenario_query_def scenario_C_pair_def scenario_names_def)
  have old: "body2_name stale_info = ''old2''"
    by (simp add: stale_info_def)
  note T = point_pair_body2_name_never_assigned
    [of 1500000 scenario_query scenario_C_pair stale_info scenario_info
        False scenario_context default_results scenario_results
        "[scenario_B_surface]" "[scenario_C_pair]" 0]
  have b1: "body1_name scenario_info = ''can2''"
    using T scenario_pair_run names(2) by simp
  have b2: "body2_name scenario_info = ''old2''"
    using T scenario_pair_run old by simp
  have m1: "body1_name (point_pair_contact_info scenario_results ! 0) = ''can2''"
    using T scenario_run cc len names(2) by simp
  have m2: "body2_name (point_pair_contact_info scenario_results ! 0) = []"
    using T scenario_run cc len reachable.fresh by (simp add: default_results_def)
  from scenario_pair_run names b1 old b2 scenario_run cc len reachable.fresh m1 m2
  show ?thesis by simp
qed

subsection \<open>Narrowing of the sizes\<close>

text \<open>
  Claim C10: the counts of the message are the sizes of the surface and point pair
  sequences narrowed to a signed 32-bit integer, and the triangle count of a surface
  message is the narrowed number of faces of its mesh. A count equals the true length
  exactly when that length is at most \<open>2 ^ 31 - 1\<close>. The witness has a query with
  \<open>2 ^ 32\<close> surfaces, for which the message declares 0 contacts.
\<close>

theorem counts_are_narrowed_sizes:
  assumes "CalcContactResults strict ctx q r = Some msg"
    and "compute_contacts strict q = Some (surfaces, points)"
  shows "num_hydroelastic_contacts msg = sint (word_of_nat (length surfaces) :: 32 word) \<and>
         num_point_pair_contacts msg = sint (word_of_nat (length points) :: 32 word) \<and>
         (num_hydroelastic_contacts msg = int (length surfaces) \<longleftrightarrow> length surfaces < 2 ^ 31) \<and>
         (num_point_pair_contacts msg = int (length points) \<longleftrightarrow> length points < 2 ^ 31) \<and>
         (\<forall>i < length (hydroelastic_contacts msg).
            i < length surfaces \<and>
            num_triangles (hydroelastic_contacts msg ! i)
              = sint (word_of_nat (length (mesh_triangles (mesh_W (surfaces ! i)))) :: 32 word) \<and>
            (num_triangles (hydroelastic_contacts msg ! i)
               = int (length (mesh_triangles (mesh_W (surfaces ! i))))
             \<longleftrightarrow> length (mesh_triangles (mesh_W (surfaces ! i))) < 2 ^ 31))"
proof -
  from assms(1) obtain surfaces' points' ts where
    cc: "compute_contacts strict q = Some (surfaces', points')"
    and msg': "msg = results_record ts q surfaces' points' r"
    by (rule CalcContactResults_SomeD)
  from cc assms(2) have "surfaces' = surfaces" "points' = points" by simp_all
  with msg' have msg: "msg = results_record ts q surfaces points r" by simp
  have ns: "num_hydroelastic_contacts msg = static_cast_int (length surfaces)"
    and np: "num_point_pair_contacts msg = static_cast_int (length points)"
    by (simp_all add: msg results_record_def)
  have tri: "i < length surfaces \<and>
            num_triangles (hydroelastic_contacts msg ! i)
              = static_cast_int (length (mesh_triangles (mesh_W (surfaces ! i))))"
    if "i < length (hydroelastic_contacts msg)" for i
  proof -
    from that have i: "i < nat (static_cast_int (length surfaces))"
      by (simp add: msg results_record_lengths)
    then have "int i < static_cast_int (length surfaces)" by simp
    also have "\<dots> \<le> int (length surfaces)" by (rule static_cast_int_le)
    finally have "i < length surfaces" by simp
    moreover have "hydroelastic_contacts msg ! i = surface_record (surfaces ! i)"
      unfolding msg by (rule results_record_nth_surface [OF i])
    ultimately show ?thesis
      by (simp add: surface_record_def Let_def mesh_num_triangles_def)
  qed
  show ?thesis
    using tri
    by (simp add: ns np static_cast_int_eq_iff)
       (simp add: static_cast_int_def)
qed

theorem counts_are_narrowed_sizes_witness:
  "CalcContactResults False scenario_context scenario_query default_results = Some scenario_results
   \<and> compute_contacts False scenario_query = Some ([scenario_B_surface], [scenario_C_pair])
   \<and> num_hydroelastic_contacts scenario_results = int (length [scenario_B_surface])
   \<and> num_point_pair_contacts scenario_results = int (length [scenario_C_pair])
   \<and> CalcContactResults True \<lparr>get_time = dbl (1 / 1048576)\<rparr> oversized_query default_results
        = Some (empty_results 0)
   \<and> compute_contacts True oversized_query = Some (replicate (2 ^ 32) scenario_B_surface, [])
   \<and> length (replicate (2 ^ 32) scenario_B_surface) = 2 ^ 32
   \<and> num_hydroelastic_contacts (empty_results 0) = 0
   \<and> num_hydroelastic_contacts (empty_results 0)
        \<noteq> int (length (replicate (2 ^ 32) scenario_B_surface))"
proof -
  have cc: "compute_contacts False scenario_query = Some ([scenario_B_surface], [scenario_C_pair])"
    by (simp add: compute_contacts_def scenario_query_def)
  have cc': "compute_contacts True oversized_query
               = Some (replicate (2 ^ 32) scenario_B_surface, [])"
    by (simp add: compute_contacts_def oversized_query_def)
  have small: "num_hydroelastic_contacts scenario_results = int (length [scenario_B_surface])"
    "num_point_pair_contacts scenario_results = int (length [scenario_C_pair])"
    using counts_are_narrowed_sizes [OF scenario_run cc] by simp_all
  have large: "num_hydroelastic_contacts (empty_results 0)
                 \<noteq> int (length (replicate (2 ^ 32) scenario_B_surface))"
    using counts_are_narrowed_sizes [OF oversized_run cc'] by simp
  have zero: "num_hydroelastic_contacts (empty_results 0) = 0"
    by (simp add: empty_results_def)
  from scenario_run cc small oversized_run cc' large zero show ?thesis by simp
qed

end
